theory Spec2Isabelle
  imports Main "HOL-Library.Word"
begin

section \<open>V8Simple: the host/script bridge of \<^verbatim>\<open>V8Simple.cpp\<close>\<close>

text \<open>
  The bridge is embedded as functions over an explicit engine. The scripting engine is
  not part of the repository; every call the bridge makes into it is a field of the
  record \<open>engine\<close>, so each theorem below holds for whatever the engine answers. An
  \<open>engine\<close> is the engine as it answers during one operation of the bridge.
  Engine values (\<^verbatim>\<open>v8::Local<...>\<close> of any kind, persistent handles included) are the
  type parameter \<open>'v\<close>; the unchecked casts \<^verbatim>\<open>As<...>()\<close> are the identity on it.

  A C++ exception is a value \<open>Inl e\<close> of the result type \<open>error + 'a\<close>; behaviour that
  C++ leaves undefined (dereferencing a null pointer or an empty handle, a downcast to the
  wrong class, a read past a buffer) is an \<open>error\<close> of its own, so that it is a visible
  branch of the model, and so is the end of the program in \<^verbatim>\<open>std::unexpected()\<close>. Static
  members of \<^verbatim>\<open>Context\<close> and the calls the bridge makes
  on host objects are the record \<open>context_state\<close>, passed in and returned.
\<close>

subsection \<open>Machine types\<close>

text \<open>
  A C++ \<^verbatim>\<open>int\<close> is 32 bits in two's complement, read with \<open>sint\<close>; a \<^verbatim>\<open>uint32_t\<close> is
  read with \<open>unat\<close>.
\<close>

type_synonym int32 = "32 word"
type_synonym uint32 = "32 word"

text \<open>A \<^verbatim>\<open>double\<close> is carried as its 64 bits: the bridge never computes on it.\<close>

type_synonym double = "64 word"

text \<open>\<^verbatim>\<open>v8::Maybe<A>\<close> and \<^verbatim>\<open>v8::MaybeLocal<A>\<close>: empty when the engine operation failed.\<close>

datatype 'a Maybe = Nothing | Just 'a

subsection \<open>The exception model\<close>

text \<open>
  The five strings of a \<^verbatim>\<open>ScriptException\<close> are \<^verbatim>\<open>const char*\<close>: \<open>None\<close> is the null
  pointer that \<^verbatim>\<open>NewString\<close> returns for a \<^verbatim>\<open>Utf8Value\<close> without buffer.
\<close>

record ScriptException =
  Name :: "string option"
  ErrorMessage :: "string option"
  FileName :: "string option"
  StackTrace :: "string option"
  SourceLine :: "string option"
  LineNumber :: int32

datatype error =
    Script ScriptException
  | runtime_error string
  | unexpected
  | NullDereference
  | InvalidDowncast

text \<open>
  The exception specification \<^verbatim>\<open>throw(std::runtime_error)\<close> of a function. An exception of
  another class that would leave the function calls \<^verbatim>\<open>std::unexpected()\<close> instead, which
  ends the program. \<^verbatim>\<open>ScriptException\<close> is no \<^verbatim>\<open>std::runtime_error\<close>: its constructor
  initialises its six members and no base.
\<close>

definition exception_specification :: "error + 'a \<Rightarrow> error + 'a" where
  "exception_specification r =
     (case r of
        Inl (Script e) \<Rightarrow> Inl unexpected
      | Inl other \<Rightarrow> Inl other
      | Inr x \<Rightarrow> Inr x)"

subsection \<open>The engine interface\<close>

text \<open>What a \<^verbatim>\<open>v8::Message\<close> and a \<^verbatim>\<open>v8::TryCatch\<close> report once an operation has failed.\<close>

record 'v Message =
  Message_Get :: 'v
  ResourceName :: 'v
  GetLineNumber :: "int32 Maybe"
  GetSourceLine :: "'v Maybe"

record 'v TryCatch =
  TryCatch_Exception :: 'v
  TryCatch_Message :: "'v Message"
  TryCatch_StackTrace :: "'v Maybe"

text \<open>
  The calls of the embedding interface that the bridge makes, under the names they have
  there (prefixed by their class where two classes share a name):
  \<^item> the predicates and conversions of \<^verbatim>\<open>v8::Value\<close>, and \<^verbatim>\<open>v8::String::Utf8Value\<close>,
    whose buffer is null (\<open>None\<close>) when the value has no string form;
  \<^item> the constructors of engine values; \<open>Function_New cb\<close> is the function that
    \<^verbatim>\<open>v8::Function::New\<close> makes for the trampoline of the host callback \<open>cb\<close>;
  \<^item> property and element access, enumeration, equality, calls and construction,
    compilation and running of scripts. \<open>Function_Call\<close> is the four-argument
    \<^verbatim>\<open>Call(context, recv, argc, argv)\<close>, a \<^verbatim>\<open>MaybeLocal\<close>; \<open>Function_Call_recv\<close> is the
    three-argument \<^verbatim>\<open>Call(recv, argc, argv)\<close>, which returns a plain \<^verbatim>\<open>Local<Value>\<close>,
    the empty handle (\<open>None\<close>) when the call threw;
  \<^item> \<open>TryCatch_new\<close>: what the \<^verbatim>\<open>v8::TryCatch\<close> of the running operation reports when
    a call under it fails.
\<close>

record 'v engine =
  IsInt32 :: "'v \<Rightarrow> bool"
  IsNumber :: "'v \<Rightarrow> bool"
  IsNumberObject :: "'v \<Rightarrow> bool"
  IsBoolean :: "'v \<Rightarrow> bool"
  IsBooleanObject :: "'v \<Rightarrow> bool"
  IsString :: "'v \<Rightarrow> bool"
  IsStringObject :: "'v \<Rightarrow> bool"
  IsArray :: "'v \<Rightarrow> bool"
  IsFunction :: "'v \<Rightarrow> bool"
  IsObject :: "'v \<Rightarrow> bool"
  IsUndefined :: "'v \<Rightarrow> bool"
  IsNull :: "'v \<Rightarrow> bool"
  Int32Value :: "'v \<Rightarrow> int32 Maybe"
  NumberValue :: "'v \<Rightarrow> double Maybe"
  BooleanValue :: "'v \<Rightarrow> bool Maybe"
  ToString :: "'v \<Rightarrow> 'v Maybe"
  ToObject :: "'v \<Rightarrow> 'v Maybe"
  Utf8Value :: "'v \<Rightarrow> string option"
  Null :: 'v
  Int32_New :: "int32 \<Rightarrow> 'v"
  Number_New :: "double \<Rightarrow> 'v"
  NewFromUtf8 :: "string \<Rightarrow> 'v"
  Boolean_New :: "bool \<Rightarrow> 'v"
  String_Empty :: 'v
  Function_New :: "nat \<Rightarrow> 'v Maybe"
  Object_Get :: "'v \<Rightarrow> 'v \<Rightarrow> 'v Maybe"
  Object_Get_index :: "'v \<Rightarrow> uint32 \<Rightarrow> 'v Maybe"
  Object_Set :: "'v \<Rightarrow> 'v \<Rightarrow> 'v \<Rightarrow> bool Maybe"
  Object_Set_index :: "'v \<Rightarrow> uint32 \<Rightarrow> 'v \<Rightarrow> bool Maybe"
  GetPropertyNames :: "'v \<Rightarrow> 'v Maybe"
  Array_Length :: "'v \<Rightarrow> uint32"
  Has :: "'v \<Rightarrow> 'v \<Rightarrow> bool Maybe"
  Equals :: "'v \<Rightarrow> 'v \<Rightarrow> bool Maybe"
  Function_Call :: "'v \<Rightarrow> 'v \<Rightarrow> 'v list \<Rightarrow> 'v Maybe"
  Function_Call_recv :: "'v \<Rightarrow> 'v \<Rightarrow> 'v list \<Rightarrow> 'v option"
  NewInstance :: "'v \<Rightarrow> 'v list \<Rightarrow> 'v Maybe"
  Script_Compile :: "'v \<Rightarrow> 'v \<Rightarrow> 'v Maybe"
  Script_Run :: "'v \<Rightarrow> 'v Maybe"
  Global :: 'v
  TryCatch_new :: "'v TryCatch"

subsection \<open>The value model\<close>

text \<open>
  The closed set of boundary values. A \<^verbatim>\<open>Value*\<close> is a \<open>Value option\<close>, \<open>None\<close> being
  the null pointer. A host callback is known by its identity. (\<open>Int'\<close> is the class
  \<^verbatim>\<open>Int\<close>, a name that HOL reserves.)
\<close>

datatype 'v Value =
    Int' int32
  | Double double
  | String string
  | Bool bool
  | Object 'v
  | Array 'v
  | Function 'v
  | Callback nat

subsection \<open>Exception translation\<close>

text \<open>\<^verbatim>\<open>NewString\<close>: a copy of the buffer, or the null pointer when there is none.\<close>

definition NewString :: "string option \<Rightarrow> string option" where
  "NewString v8str = (case v8str of None \<Rightarrow> None | Some src \<Rightarrow> Some src)"

text \<open>
  \<^verbatim>\<open>Context::Throw\<close> builds the exception it raises from the \<^verbatim>\<open>TryCatch\<close>; the model
  returns that exception, and \<open>FromJust\<close> raises it. \<^verbatim>\<open>tryCatch.Message()\<close> is taken to
  be a non-empty handle, as it is while an exception is pending.
\<close>

definition Throw :: "'v engine \<Rightarrow> 'v TryCatch \<Rightarrow> ScriptException" where
  "Throw eng tryCatch =
     (let exception = Utf8Value eng (TryCatch_Exception tryCatch);
          message = TryCatch_Message tryCatch;
          emptyString = String_Empty eng;
          stackTrace = Utf8Value eng
            (case TryCatch_StackTrace tryCatch of Nothing \<Rightarrow> emptyString | Just s \<Rightarrow> s);
          sourceLine = Utf8Value eng
            (case GetSourceLine message of Nothing \<Rightarrow> emptyString | Just s \<Rightarrow> s)
      in \<lparr> Name = NewString exception,
           ErrorMessage = NewString (Utf8Value eng (Message_Get message)),
           FileName = NewString (Utf8Value eng (ResourceName message)),
           StackTrace = NewString stackTrace,
           SourceLine = NewString sourceLine,
           LineNumber = (case GetLineNumber message of Nothing \<Rightarrow> - 1 | Just n \<Rightarrow> n) \<rparr>)"

text \<open>
  \<^verbatim>\<open>Context::FromJust\<close>, for \<^verbatim>\<open>MaybeLocal\<close> and for \<^verbatim>\<open>Maybe\<close>: an empty result raises
  the translated exception.
\<close>

definition FromJust :: "'v engine \<Rightarrow> 'v TryCatch \<Rightarrow> 'a Maybe \<Rightarrow> error + 'a" where
  "FromJust eng tryCatch a =
     (case a of Nothing \<Rightarrow> Inl (Script (Throw eng tryCatch)) | Just x \<Rightarrow> Inr x)"

subsection \<open>Marshaling: \<^verbatim>\<open>Wrap\<close>\<close>

text \<open>
  \<^verbatim>\<open>Context::Wrap(tryCatch, Local<Value>) throw(std::runtime_error)\<close>. The exception that
  \<^verbatim>\<open>FromJust\<close> raises for a failed conversion does not pass the exception specification.
  In the string branch the \<^verbatim>\<open>String\<close> constructor copies from the buffer of the
  \<^verbatim>\<open>Utf8Value\<close>, which it dereferences.
\<close>

definition Wrap :: "'v engine \<Rightarrow> 'v TryCatch \<Rightarrow> 'v \<Rightarrow> error + 'v Value option" where
  "Wrap eng tryCatch v =
     exception_specification
     (if IsInt32 eng v then
        (case FromJust eng tryCatch (Int32Value eng v) of
           Inl e \<Rightarrow> Inl e | Inr i \<Rightarrow> Inr (Some (Int' i)))
      else if IsNumber eng v \<or> IsNumberObject eng v then
        (case FromJust eng tryCatch (NumberValue eng v) of
           Inl e \<Rightarrow> Inl e | Inr d \<Rightarrow> Inr (Some (Double d)))
      else if IsBoolean eng v \<or> IsBooleanObject eng v then
        (case FromJust eng tryCatch (BooleanValue eng v) of
           Inl e \<Rightarrow> Inl e | Inr b \<Rightarrow> Inr (Some (Bool b)))
      else if IsString eng v \<or> IsStringObject eng v then
        (case FromJust eng tryCatch (ToString eng v) of
           Inl e \<Rightarrow> Inl e
         | Inr s \<Rightarrow>
             (case Utf8Value eng s of
                None \<Rightarrow> Inl NullDereference
              | Some str \<Rightarrow> Inr (Some (String str))))
      else if IsArray eng v then
        (case FromJust eng tryCatch (ToObject eng v) of
           Inl e \<Rightarrow> Inl e | Inr a \<Rightarrow> Inr (Some (Array a)))
      else if IsFunction eng v then
        (case FromJust eng tryCatch (ToObject eng v) of
           Inl e \<Rightarrow> Inl e | Inr f \<Rightarrow> Inr (Some (Function f)))
      else if IsObject eng v then
        (case FromJust eng tryCatch (ToObject eng v) of
           Inl e \<Rightarrow> Inl e | Inr ob \<Rightarrow> Inr (Some (Object ob)))
      else if IsUndefined eng v \<or> IsNull eng v then Inr None
      else Inl (runtime_error ''Unhandled type in V8Simple''))"

text \<open>
  \<^verbatim>\<open>Context::Wrap(tryCatch, MaybeLocal<Value>) throw(std::runtime_error)\<close>: its
  \<^verbatim>\<open>FromJust\<close> is inside the function, so the exception for an empty \<open>mvalue\<close> does not
  pass the exception specification either.
\<close>

definition Wrap_Maybe :: "'v engine \<Rightarrow> 'v TryCatch \<Rightarrow> 'v Maybe \<Rightarrow> error + 'v Value option" where
  "Wrap_Maybe eng tryCatch mvalue =
     exception_specification
     (case FromJust eng tryCatch mvalue of Inl e \<Rightarrow> Inl e | Inr v \<Rightarrow> Wrap eng tryCatch v)"

subsection \<open>The state of the bridge\<close>

text \<open>
  The calls the bridge makes on host objects, and the line that
  \<^verbatim>\<open>HandleScriptException\<close> writes to \<^verbatim>\<open>std::cout\<close>, in the order they happen. (The
  trace lines of the \<^verbatim>\<open>String\<close> constructor and destructor are left out.)
\<close>

datatype event =
    Cout string
  | Handle nat ScriptException
  | HandlerRetain nat
  | HandlerRelease nat
  | CallbackRetain nat

text \<open>
  The static members of \<^verbatim>\<open>Context\<close>: \<open>platform\<close> and \<open>isolate\<close> say whether
  \<^verbatim>\<open>_platform\<close> and \<^verbatim>\<open>_isolate\<close> are non-null; the handler is known by its identity.
\<close>

record 'v context_state =
  platform :: bool
  isolate :: bool
  scriptExceptionHandler :: "nat option"
  instanceOf :: "'v Value option"
  trace :: "event list"

definition HandleScriptException :: "ScriptException \<Rightarrow> 'v context_state \<Rightarrow> 'v context_state" where
  "HandleScriptException e st =
     (let st' = st\<lparr>trace := trace st @ [Cout ''handle script exception'']\<rparr>
      in case scriptExceptionHandler st' of
           None \<Rightarrow> st'
         | Some h \<Rightarrow> st'\<lparr>trace := trace st' @ [Handle h e]\<rparr>)"

text \<open>
  The pattern of every facade operation,
  \<^verbatim>\<open>try { ... } catch (ScriptException& e) { HandleScriptException(e); return failure; }\<close>:
  any other exception passes through.
\<close>

definition catch_ScriptException ::
  "'a \<Rightarrow> (error + 'a) \<times> 'v context_state \<Rightarrow> (error + 'a) \<times> 'v context_state" where
  "catch_ScriptException failure r =
     (case r of
        (Inl (Script e), st) \<Rightarrow> (Inr failure, HandleScriptException e st)
      | (Inl other, st) \<Rightarrow> (Inl other, st)
      | (Inr x, st) \<Rightarrow> (Inr x, st))"

text \<open>The exception specification, for a function that also returns the state.\<close>

definition throws_runtime_error ::
  "(error + 'a) \<times> 'v context_state \<Rightarrow> (error + 'a) \<times> 'v context_state" where
  "throws_runtime_error r = (exception_specification (fst r), snd r)"

text \<open>
  \<^verbatim>\<open>v8::Isolate::Scope isolateScope(_isolate)\<close>, the first statement of every operation
  that uses the engine: it enters the isolate, through the null pointer when no Context
  is live.
\<close>

definition Isolate_Scope ::
  "'v context_state \<Rightarrow> (error + 'a) \<times> 'v context_state \<Rightarrow> (error + 'a) \<times> 'v context_state" where
  "Isolate_Scope st body = (if isolate st then body else (Inl NullDereference, st))"

subsection \<open>Marshaling: \<^verbatim>\<open>Unwrap\<close>\<close>

text \<open>
  \<^verbatim>\<open>Context::Unwrap\<close>. A callback is retained before the engine is asked for the function
  of its trampoline; the trampoline itself is run by the engine and is not part of the
  model.
\<close>

definition Unwrap ::
  "'v engine \<Rightarrow> 'v TryCatch \<Rightarrow> 'v Value option \<Rightarrow> 'v context_state
     \<Rightarrow> (error + 'v) \<times> 'v context_state" where
  "Unwrap eng tryCatch v st =
     (case v of
        None \<Rightarrow> (Inr (Null eng), st)
      | Some (Int' i) \<Rightarrow> (Inr (Int32_New eng i), st)
      | Some (Double d) \<Rightarrow> (Inr (Number_New eng d), st)
      | Some (String s) \<Rightarrow> (Inr (NewFromUtf8 eng s), st)
      | Some (Bool b) \<Rightarrow> (Inr (Boolean_New eng b), st)
      | Some (Object ob) \<Rightarrow> (Inr ob, st)
      | Some (Array a) \<Rightarrow> (Inr a, st)
      | Some (Function f) \<Rightarrow> (Inr f, st)
      | Some (Callback cb) \<Rightarrow>
          (FromJust eng tryCatch (Function_New eng cb),
           st\<lparr>trace := trace st @ [CallbackRetain cb]\<rparr>))"

text \<open>
  \<^verbatim>\<open>Context::UnwrapVector\<close>: the loop over \<open>values\<close>, \<open>result\<close> being the vector filled
  so far.
\<close>

fun UnwrapVector_loop ::
  "'v engine \<Rightarrow> 'v TryCatch \<Rightarrow> 'v Value option list \<Rightarrow> 'v list \<Rightarrow> 'v context_state
     \<Rightarrow> (error + 'v list) \<times> 'v context_state" where
  "UnwrapVector_loop eng tryCatch [] result st = (Inr result, st)"
| "UnwrapVector_loop eng tryCatch (v # values) result st =
     (case Unwrap eng tryCatch v st of
        (Inl e, st') \<Rightarrow> (Inl e, st')
      | (Inr x, st') \<Rightarrow> UnwrapVector_loop eng tryCatch values (result @ [x]) st')"

definition UnwrapVector ::
  "'v engine \<Rightarrow> 'v TryCatch \<Rightarrow> 'v Value option list \<Rightarrow> 'v context_state
     \<Rightarrow> (error + 'v list) \<times> 'v context_state" where
  "UnwrapVector eng tryCatch values st = UnwrapVector_loop eng tryCatch values [] st"

subsection \<open>Context\<close>

text \<open>
  \<^verbatim>\<open>ToV8String\<close> is \<open>NewFromUtf8\<close>. In each operation \<open>tryCatch\<close> is the local
  \<^verbatim>\<open>v8::TryCatch\<close> that the operation declares. \<open>throws_runtime_error\<close> stands where the
  source declares \<^verbatim>\<open>throw(std::runtime_error)\<close>.
\<close>

definition Evaluate ::
  "'v engine \<Rightarrow> string \<Rightarrow> string \<Rightarrow> 'v context_state
     \<Rightarrow> (error + 'v Value option) \<times> 'v context_state" where
  "Evaluate eng fileName code st =
     throws_runtime_error
     (catch_ScriptException None
       (Isolate_Scope st
         (let tryCatch = TryCatch_new eng;
              origin = NewFromUtf8 eng fileName
          in case FromJust eng tryCatch (Script_Compile eng (NewFromUtf8 eng code) origin) of
               Inl e \<Rightarrow> (Inl e, st)
             | Inr script \<Rightarrow> (Wrap_Maybe eng tryCatch (Script_Run eng script), st))))"

text \<open>
  The constructor; of the engine's own setup (flags, platform, isolate, scopes) only
  whether \<^verbatim>\<open>_platform\<close> and \<^verbatim>\<open>_isolate\<close> are set is kept. A null
  \<open>scriptExceptionHandler\<close> is dereferenced by its \<^verbatim>\<open>Retain()\<close>;
  the \<^verbatim>\<open>static_cast<Function*>\<close> of the bootstrap result is unchecked, so \<open>instanceOf\<close>
  holds whatever \<open>Evaluate\<close> returned.
\<close>

definition Context_new ::
  "'v engine \<Rightarrow> nat option \<Rightarrow> 'v context_state \<Rightarrow> (error + unit) \<times> 'v context_state" where
  "Context_new eng handler st =
     throws_runtime_error
     (let st1 = (if \<not> platform st then st\<lparr>platform := True\<rparr> else st)
      in if \<not> isolate st1 then
           (let st2 = st1\<lparr>isolate := True\<rparr>
            in case handler of
                 None \<Rightarrow> (Inl NullDereference, st2\<lparr>scriptExceptionHandler := None\<rparr>)
               | Some h \<Rightarrow>
                   (let st3 = st2\<lparr>scriptExceptionHandler := Some h,
                                  trace := trace st2 @ [HandlerRetain h]\<rparr>
                    in case Evaluate eng ''instanceof''
                              ''(function(x, y) { return (x instanceof y); })'' st3 of
                         (Inl e, st4) \<Rightarrow> (Inl e, st4)
                       | (Inr r, st4) \<Rightarrow> (Inr (), st4\<lparr>instanceOf := r\<rparr>)))
         else (Inl (runtime_error ''V8Simple Contexts are not re-entrant''), st1))"


definition GlobalObject ::
  "'v engine \<Rightarrow> 'v context_state \<Rightarrow> (error + 'v Value) \<times> 'v context_state" where
  "GlobalObject eng st = Isolate_Scope st (Inr (Object (Global eng)), st)"

subsection \<open>Function\<close>

text \<open>The first argument of each facade operation is the handle that the facade holds.\<close>

definition Function_Call_op ::
  "'v engine \<Rightarrow> 'v \<Rightarrow> 'v Value option list \<Rightarrow> 'v context_state
     \<Rightarrow> (error + 'v Value option) \<times> 'v context_state" where
  "Function_Call_op eng function args st =
     throws_runtime_error
     (catch_ScriptException None
       (Isolate_Scope st
         (let tryCatch = TryCatch_new eng
          in case UnwrapVector eng tryCatch args st of
               (Inl e, st') \<Rightarrow> (Inl e, st')
             | (Inr unwrappedArgs, st') \<Rightarrow>
                 (Wrap_Maybe eng tryCatch
                    (Function_Call eng function (Global eng) unwrappedArgs), st'))))"

definition Function_Construct ::
  "'v engine \<Rightarrow> 'v \<Rightarrow> 'v Value option list \<Rightarrow> 'v context_state
     \<Rightarrow> (error + 'v Value option) \<times> 'v context_state" where
  "Function_Construct eng function args st =
     catch_ScriptException None
       (Isolate_Scope st
         (let tryCatch = TryCatch_new eng
          in case UnwrapVector eng tryCatch args st of
               (Inl e, st') \<Rightarrow> (Inl e, st')
             | (Inr unwrappedArgs, st') \<Rightarrow>
                 (case FromJust eng tryCatch (NewInstance eng function unwrappedArgs) of
                    Inl e \<Rightarrow> (Inl e, st')
                  | Inr ob \<Rightarrow> (Inr (Some (Object ob)), st'))))"

definition Function_Equals ::
  "'v engine \<Rightarrow> 'v \<Rightarrow> 'v \<Rightarrow> 'v context_state \<Rightarrow> (error + bool) \<times> 'v context_state" where
  "Function_Equals eng function other st =
     catch_ScriptException False
       (Isolate_Scope st (FromJust eng (TryCatch_new eng) (Equals eng function other), st))"

subsection \<open>Object\<close>

definition Object_Get_op ::
  "'v engine \<Rightarrow> 'v \<Rightarrow> string \<Rightarrow> 'v context_state
     \<Rightarrow> (error + 'v Value option) \<times> 'v context_state" where
  "Object_Get_op eng object key st =
     throws_runtime_error
     (catch_ScriptException None
       (Isolate_Scope st
         (Wrap_Maybe eng (TryCatch_new eng) (Object_Get eng object (NewFromUtf8 eng key)), st)))"

definition Object_Set_op ::
  "'v engine \<Rightarrow> 'v \<Rightarrow> string \<Rightarrow> 'v Value \<Rightarrow> 'v context_state
     \<Rightarrow> (error + unit) \<times> 'v context_state" where
  "Object_Set_op eng object key v st =
     catch_ScriptException ()
       (Isolate_Scope st
         (let tryCatch = TryCatch_new eng
          in case Unwrap eng tryCatch (Some v) st of
               (Inl e, st') \<Rightarrow> (Inl e, st')
             | (Inr x, st') \<Rightarrow>
                 (case FromJust eng tryCatch (Object_Set eng object (NewFromUtf8 eng key) x) of
                    Inl e \<Rightarrow> (Inl e, st')
                  | Inr ret \<Rightarrow> (Inr (), st'))))"

text \<open>
  The loop of \<^verbatim>\<open>Object::Keys\<close>, \<^verbatim>\<open>for (int i = 0; i < static_cast<int>(length); ++i)\<close>:
  \<open>len\<close> is the converted length. An entry of the result is a \<^verbatim>\<open>const char*\<close>, null
  (\<open>None\<close>) when the name has no string form.
\<close>

function Keys_loop ::
  "'v engine \<Rightarrow> 'v TryCatch \<Rightarrow> 'v \<Rightarrow> int \<Rightarrow> int \<Rightarrow> string option list
     \<Rightarrow> error + string option list" where
  "Keys_loop eng tryCatch propArr len i result =
     (if i < len then
        (case FromJust eng tryCatch (Object_Get_index eng propArr (word_of_int i)) of
           Inl e \<Rightarrow> Inl e
         | Inr name \<Rightarrow>
             Keys_loop eng tryCatch propArr len (i + 1)
               (result @ [NewString (Utf8Value eng name)]))
      else Inr result)"
  by pat_completeness auto
termination
  by (relation "measure (\<lambda>(eng, tryCatch, propArr, len, i, result). nat (len - i))") auto

declare Keys_loop.simps [simp del]

definition Keys ::
  "'v engine \<Rightarrow> 'v \<Rightarrow> 'v context_state
     \<Rightarrow> (error + string option list) \<times> 'v context_state" where
  "Keys eng object st =
     catch_ScriptException []
       (Isolate_Scope st
         (let tryCatch = TryCatch_new eng
          in case FromJust eng tryCatch (GetPropertyNames eng object) of
               Inl e \<Rightarrow> (Inl e, st)
             | Inr propArr \<Rightarrow>
                 (let length = Array_Length eng propArr
                  in (Keys_loop eng tryCatch propArr (sint length) 0 [], st))))"

definition ContainsKey ::
  "'v engine \<Rightarrow> 'v \<Rightarrow> string \<Rightarrow> 'v context_state \<Rightarrow> (error + bool) \<times> 'v context_state" where
  "ContainsKey eng object key st =
     catch_ScriptException False
       (Isolate_Scope st
         (FromJust eng (TryCatch_new eng) (Has eng object (NewFromUtf8 eng key)), st))"

definition Object_Equals ::
  "'v engine \<Rightarrow> 'v \<Rightarrow> 'v \<Rightarrow> 'v context_state \<Rightarrow> (error + bool) \<times> 'v context_state" where
  "Object_Equals eng object other st =
     catch_ScriptException False
       (Isolate_Scope st (FromJust eng (TryCatch_new eng) (Equals eng object other), st))"

text \<open>
  \<^verbatim>\<open>Object::CallMethod\<close> calls the three-argument \<^verbatim>\<open>Call\<close> and hands its plain
  \<^verbatim>\<open>Local<Value>\<close> to \<^verbatim>\<open>Wrap(tryCatch, Local<Value>)\<close>, which dereferences it.
\<close>

definition CallMethod ::
  "'v engine \<Rightarrow> 'v \<Rightarrow> string \<Rightarrow> 'v Value option list \<Rightarrow> 'v context_state
     \<Rightarrow> (error + 'v Value option) \<times> 'v context_state" where
  "CallMethod eng object name args st =
     throws_runtime_error
     (catch_ScriptException None
       (Isolate_Scope st
         (let tryCatch = TryCatch_new eng
          in case FromJust eng tryCatch (Object_Get eng object (NewFromUtf8 eng name)) of
               Inl e \<Rightarrow> (Inl e, st)
             | Inr f \<Rightarrow>
                 (case UnwrapVector eng tryCatch args st of
                    (Inl e, st') \<Rightarrow> (Inl e, st')
                  | (Inr unwrappedArgs, st') \<Rightarrow>
                      (case Function_Call_recv eng f object unwrappedArgs of
                         None \<Rightarrow> (Inl NullDereference, st')
                       | Some v \<Rightarrow> (Wrap eng tryCatch v, st'))))))"

text \<open>
  \<^verbatim>\<open>Object::InstanceOf\<close> has no handler of its own: it calls \<^verbatim>\<open>Function::Call\<close> on the
  cached helper, casts the \<^verbatim>\<open>Value*\<close> it gets to \<^verbatim>\<open>Bool*\<close> and reads through it.
\<close>

definition InstanceOf ::
  "'v engine \<Rightarrow> 'v \<Rightarrow> 'v \<Rightarrow> 'v context_state \<Rightarrow> (error + bool) \<times> 'v context_state" where
  "InstanceOf eng object type st =
     throws_runtime_error
     (let args = [Some (Object object), Some (Function type)]
      in case instanceOf st of
           None \<Rightarrow> (Inl NullDereference, st)
         | Some (Function helper) \<Rightarrow>
             (case Function_Call_op eng helper args st of
                (Inl e, st') \<Rightarrow> (Inl e, st')
              | (Inr None, st') \<Rightarrow> (Inl NullDereference, st')
              | (Inr (Some (Bool result)), st') \<Rightarrow> (Inr result, st')
              | (Inr (Some other), st') \<Rightarrow> (Inl InvalidDowncast, st'))
         | Some other \<Rightarrow> (Inl InvalidDowncast, st))"

subsection \<open>Array\<close>

text \<open>
  \<^verbatim>\<open>static_cast<uint32_t>(index)\<close> is the value of \<open>index\<close> modulo \<open>2 ^ 32\<close>:
  \<open>word_of_int (sint index)\<close>.
\<close>

definition Array_Get ::
  "'v engine \<Rightarrow> 'v \<Rightarrow> int32 \<Rightarrow> 'v context_state
     \<Rightarrow> (error + 'v Value option) \<times> 'v context_state" where
  "Array_Get eng array index st =
     throws_runtime_error
     (catch_ScriptException None
       (Isolate_Scope st
         (Wrap_Maybe eng (TryCatch_new eng)
            (Object_Get_index eng array (word_of_int (sint index))), st)))"

definition Array_Set ::
  "'v engine \<Rightarrow> 'v \<Rightarrow> int32 \<Rightarrow> 'v Value \<Rightarrow> 'v context_state
     \<Rightarrow> (error + unit) \<times> 'v context_state" where
  "Array_Set eng array index v st =
     catch_ScriptException ()
       (Isolate_Scope st
         (let tryCatch = TryCatch_new eng
          in case Unwrap eng tryCatch (Some v) st of
               (Inl e, st') \<Rightarrow> (Inl e, st')
             | (Inr x, st') \<Rightarrow>
                 (case FromJust eng tryCatch
                         (Object_Set_index eng array (word_of_int (sint index)) x) of
                    Inl e \<Rightarrow> (Inl e, st')
                  | Inr ret \<Rightarrow> (Inr (), st'))))"


definition Array_Equals ::
  "'v engine \<Rightarrow> 'v \<Rightarrow> 'v \<Rightarrow> 'v context_state \<Rightarrow> (error + bool) \<times> 'v context_state" where
  "Array_Equals eng array other st =
     catch_ScriptException False
       (Isolate_Scope st (FromJust eng (TryCatch_new eng) (Equals eng array other), st))"

subsection \<open>Callback\<close>

text \<open>\<^verbatim>\<open>Callback::Call\<close>, the implementation that a host class inherits when it gives none.\<close>

definition Callback_Call ::
  "'v Value option list \<Rightarrow> 'v context_state
     \<Rightarrow> (error + 'v Value option) \<times> 'v context_state" where
  "Callback_Call args st =
     throws_runtime_error (Inl (runtime_error ''Callback.Call not implemented''), st)"

subsection \<open>String\<close>

text \<open>
  The class \<^verbatim>\<open>String\<close> owns a buffer, so it is modelled over a store of the live
  \<^verbatim>\<open>char\<close> arrays: pairs of the address of an array and its bytes. \<^verbatim>\<open>new char[n]\<close> gives
  an address that no live array has; \<^verbatim>\<open>delete[]\<close> ends the life of the array at an
  address; \<open>heap_write\<close> is a store of one byte through a pointer to an array.
\<close>

type_synonym addr = nat
type_synonym heap = "(addr \<times> char list) list"

definition heap_new :: "heap \<Rightarrow> addr" where
  "heap_new h = Suc (foldr max (map fst h) 0)"

definition heap_delete :: "heap \<Rightarrow> addr \<Rightarrow> heap" where
  "heap_delete h a = filter (\<lambda>p. fst p \<noteq> a) h"

definition heap_write :: "heap \<Rightarrow> addr \<Rightarrow> nat \<Rightarrow> char \<Rightarrow> heap" where
  "heap_write h a i c = map (\<lambda>p. if fst p = a then (fst p, (snd p)[i := c]) else p) h"

text \<open>
  What can go wrong in this class: \<^verbatim>\<open>std::bad_alloc\<close> (with the
  \<^verbatim>\<open>std::bad_array_new_length\<close> derived from it) thrown by \<^verbatim>\<open>new\<close>, and three kinds of
  undefined behaviour.
\<close>

datatype memory_error = bad_alloc | SignedOverflow | OutOfBoundsRead | UseAfterFree

text \<open>The members \<^verbatim>\<open>_value\<close> and \<^verbatim>\<open>_length\<close>; the length is an \<^verbatim>\<open>int\<close>.\<close>

record String_rep =
  String_value :: addr
  String_length :: int32

text \<open>
  \<^verbatim>\<open>String(const char* value, int length)\<close>. The argument \<open>src\<close> is the memory that can
  be read through \<open>value\<close>: the bytes from \<open>value\<close> to the end of the array it points
  into. The constructor allocates \<open>length + 1\<close> bytes and copies as many from \<open>value\<close>;
  it writes no byte of its own. The sum \<open>length + 1\<close> is computed in \<^verbatim>\<open>int\<close> and overflows
  for the greatest \<^verbatim>\<open>int\<close>; a negative array size makes \<^verbatim>\<open>new\<close> throw; a copy longer
  than \<open>src\<close> reads past the array.
\<close>

definition String_new2 ::
  "heap \<Rightarrow> char list \<Rightarrow> int32 \<Rightarrow> memory_error + String_rep \<times> heap" where
  "String_new2 h src len =
     (if sint len = 2 ^ 31 - 1 then Inl SignedOverflow
      else if sint len + 1 < 0 then Inl bad_alloc
      else if length src < nat (sint len + 1) then Inl OutOfBoundsRead
      else (let a = heap_new h
            in Inr (\<lparr> String_value = a, String_length = len \<rparr>,
                    (a, take (nat (sint len + 1)) src) # h)))"

text \<open>
  \<^verbatim>\<open>String(const char* value)\<close> delegates with \<^verbatim>\<open>std::strlen(value)\<close>, which reads up
  to the first null byte. The \<^verbatim>\<open>size_t\<close> it returns is narrowed to the \<^verbatim>\<open>int\<close> parameter:
  its value modulo \<open>2 ^ 32\<close>, read in two's complement.
\<close>

definition strlen :: "char list \<Rightarrow> memory_error + nat" where
  "strlen src =
     (if CHR 0x00 \<in> set src then Inr (length (takeWhile (\<lambda>c. c \<noteq> CHR 0x00) src))
      else Inl OutOfBoundsRead)"

definition String_new1 :: "heap \<Rightarrow> char list \<Rightarrow> memory_error + String_rep \<times> heap" where
  "String_new1 h src =
     (case strlen src of Inl e \<Rightarrow> Inl e | Inr n \<Rightarrow> String_new2 h src (word_of_nat n))"

text \<open>
  The copy constructor delegates with the buffer and the length of \<open>str\<close>; the buffer of
  a \<^verbatim>\<open>String\<close> that was destroyed is no longer there to read.
\<close>

definition String_copy :: "heap \<Rightarrow> String_rep \<Rightarrow> memory_error + String_rep \<times> heap" where
  "String_copy h str =
     (case map_of h (String_value str) of
        None \<Rightarrow> Inl UseAfterFree
      | Some src \<Rightarrow> String_new2 h src (String_length str))"

definition GetValue :: "String_rep \<Rightarrow> addr" where
  "GetValue s = String_value s"

definition String_delete :: "heap \<Rightarrow> String_rep \<Rightarrow> heap" where
  "String_delete h s = heap_delete h (String_value s)"

text \<open>
  The invariant: the buffer has \<open>length + 1\<close> bytes, the last of which, at index
  \<open>length\<close>, is the null byte.
\<close>

definition null_terminated :: "heap \<Rightarrow> String_rep \<Rightarrow> bool" where
  "null_terminated h s =
     (case map_of h (GetValue s) of
        None \<Rightarrow> False
      | Some buf \<Rightarrow>
          0 \<le> sint (String_length s) \<and> length buf = nat (sint (String_length s)) + 1
          \<and> buf ! nat (sint (String_length s)) = CHR 0x00)"

section \<open>A small engine\<close>

text \<open>
  To evaluate the bridge on concrete inputs, a small engine: a fragment of the script
  language with the answers the embedding interface documents for it. A number is an
  \<open>JS_Int32\<close> when it is integral and in the 32-bit range, a \<open>JS_Number\<close> otherwise. An
  object is the list of its own properties, each with its \<^emph>\<open>enumerable\<close> attribute. An
  array is the list of its elements and, when it has one, its property named
  \<^verbatim>\<open>4294967295\<close>: the greatest index of an element is \<open>2 ^ 32 - 2\<close>, so this name is an
  ordinary property, which an assignment creates without touching the length. There
  are three functions: the bootstrap helper \<open>Instanceof\<close>, an arrow function \<open>Arrow\<close>
  (\<^verbatim>\<open>() => 1\<close>, which has no \<^verbatim>\<open>prototype\<close>), and the function made for a host callback.
  An error object is its name and its message. Where the fragment does not cover a
  conversion (the text of a number, say), the operation is reported as failed.
\<close>

datatype js_function = Instanceof | Arrow | Host nat

datatype js =
    JS_Undefined
  | JS_Null
  | JS_Symbol
  | JS_Boolean bool
  | JS_Int32 int32
  | JS_Number double
  | JS_String string
  | JS_BooleanObject bool
  | JS_NumberObject double
  | JS_StringObject string
  | JS_Array "js list" "js option"
  | JS_Function js_function
  | JS_Object "(string \<times> bool \<times> js) list"
  | JS_Error string string
  | JS_Script string

definition js_IsNumber :: "js \<Rightarrow> bool" where
  "js_IsNumber v = (case v of JS_Int32 n \<Rightarrow> True | JS_Number d \<Rightarrow> True | _ \<Rightarrow> False)"

definition js_IsObject :: "js \<Rightarrow> bool" where
  "js_IsObject v =
     (case v of
        JS_BooleanObject b \<Rightarrow> True | JS_NumberObject d \<Rightarrow> True | JS_StringObject s \<Rightarrow> True
      | JS_Array xs p \<Rightarrow> True | JS_Function f \<Rightarrow> True | JS_Object ps \<Rightarrow> True
      | JS_Error n m \<Rightarrow> True
      | _ \<Rightarrow> False)"

definition js_Int32Value :: "js \<Rightarrow> int32 Maybe" where
  "js_Int32Value v = (case v of JS_Int32 n \<Rightarrow> Just n | _ \<Rightarrow> Nothing)"

definition js_NumberValue :: "js \<Rightarrow> double Maybe" where
  "js_NumberValue v =
     (case v of JS_Number d \<Rightarrow> Just d | JS_NumberObject d \<Rightarrow> Just d | _ \<Rightarrow> Nothing)"

text \<open>Every object is true as a boolean, a boxed \<^verbatim>\<open>false\<close> too.\<close>

definition js_BooleanValue :: "js \<Rightarrow> bool Maybe" where
  "js_BooleanValue v =
     (case v of
        JS_Boolean b \<Rightarrow> Just b | JS_Undefined \<Rightarrow> Just False | JS_Null \<Rightarrow> Just False
      | JS_Symbol \<Rightarrow> Just True | JS_String s \<Rightarrow> Just (s \<noteq> [])
      | JS_Int32 n \<Rightarrow> Just (n \<noteq> 0)
      | JS_Number d \<Rightarrow> Nothing | JS_Script s \<Rightarrow> Nothing
      | _ \<Rightarrow> Just True)"

definition js_ToString :: "js \<Rightarrow> js Maybe" where
  "js_ToString v =
     (case v of
        JS_String s \<Rightarrow> Just (JS_String s)
      | JS_StringObject s \<Rightarrow> Just (JS_String s)
      | JS_Undefined \<Rightarrow> Just (JS_String ''undefined'')
      | JS_Null \<Rightarrow> Just (JS_String ''null'')
      | JS_Boolean b \<Rightarrow> Just (JS_String (if b then ''true'' else ''false''))
      | JS_BooleanObject b \<Rightarrow> Just (JS_String (if b then ''true'' else ''false''))
      | JS_Object ps \<Rightarrow> Just (JS_String ''[object Object]'')
      | JS_Error n m \<Rightarrow> Just (JS_String (n @ '': '' @ m))
      | _ \<Rightarrow> Nothing)"

definition js_ToObject :: "js \<Rightarrow> js Maybe" where
  "js_ToObject v =
     (case v of
        JS_Boolean b \<Rightarrow> Just (JS_BooleanObject b)
      | JS_Number d \<Rightarrow> Just (JS_NumberObject d)
      | JS_String s \<Rightarrow> Just (JS_StringObject s)
      | JS_Undefined \<Rightarrow> Nothing | JS_Null \<Rightarrow> Nothing | JS_Symbol \<Rightarrow> Nothing
      | JS_Int32 n \<Rightarrow> Nothing | JS_Script s \<Rightarrow> Nothing
      | _ \<Rightarrow> Just v)"

definition js_Utf8Value :: "js \<Rightarrow> string option" where
  "js_Utf8Value v = (case js_ToString v of Just (JS_String s) \<Rightarrow> Some s | _ \<Rightarrow> None)"

text \<open>
  Reading a property that the object does not have gives \<^verbatim>\<open>undefined\<close>; so does reading
  beyond the end of an array, unless the index is \<open>2 ^ 32 - 1\<close> and the array has the
  property of that name.
\<close>

definition js_Get :: "js \<Rightarrow> js \<Rightarrow> js Maybe" where
  "js_Get ob key =
     (case (ob, key) of
        (JS_Object ps, JS_String k) \<Rightarrow>
          (case map_of ps k of Some (en, x) \<Rightarrow> Just x | None \<Rightarrow> Just JS_Undefined)
      | _ \<Rightarrow> Just JS_Undefined)"

definition js_Get_index :: "js \<Rightarrow> uint32 \<Rightarrow> js Maybe" where
  "js_Get_index ob i =
     (case ob of
        JS_Array xs p \<Rightarrow>
          (if unat i < length xs then Just (xs ! unat i)
           else if i = - 1 then (case p of None \<Rightarrow> Just JS_Undefined | Some x \<Rightarrow> Just x)
           else Just JS_Undefined)
      | _ \<Rightarrow> Just JS_Undefined)"

text \<open>
  \<^verbatim>\<open>GetPropertyNames\<close> lists what a \<^verbatim>\<open>for-in\<close> loop enumerates, the enumerable
  properties; \<^verbatim>\<open>Has\<close> is the \<^verbatim>\<open>in\<close> operator, which finds every property.
\<close>

definition js_GetPropertyNames :: "js \<Rightarrow> js Maybe" where
  "js_GetPropertyNames ob =
     (case ob of
        JS_Object ps \<Rightarrow>
          Just (JS_Array (map (\<lambda>p. JS_String (fst p)) (filter (\<lambda>p. fst (snd p)) ps)) None)
      | JS_Array xs p \<Rightarrow>
          Just (JS_Array
                 (map (\<lambda>i. JS_Int32 (of_nat i)) [0..<length xs]
                  @ (case p of None \<Rightarrow> [] | Some x \<Rightarrow> [JS_String ''4294967295'']))
                 None)
      | _ \<Rightarrow> Just (JS_Array [] None))"

definition js_Length :: "js \<Rightarrow> uint32" where
  "js_Length ob = (case ob of JS_Array xs p \<Rightarrow> of_nat (length xs) | _ \<Rightarrow> 0)"

definition js_Has :: "js \<Rightarrow> js \<Rightarrow> bool Maybe" where
  "js_Has ob key =
     (case (ob, key) of
        (JS_Object ps, JS_String k) \<Rightarrow> Just (map_of ps k \<noteq> None)
      | _ \<Rightarrow> Just False)"

text \<open>
  \<^verbatim>\<open>x instanceof y\<close> raises a \<^verbatim>\<open>TypeError\<close> when \<open>y\<close> has no \<^verbatim>\<open>prototype\<close> object, as
  an arrow function has none; no object of the fragment is an instance of a function.
  An arrow function is not a constructor. Calling what is not a function fails. The host
  callbacks of the fragment implement \<^verbatim>\<open>Call\<close> by returning the null pointer, which their
  trampoline hands to the script as \<^verbatim>\<open>null\<close>.
\<close>

definition js_Call :: "js \<Rightarrow> js \<Rightarrow> js list \<Rightarrow> js Maybe" where
  "js_Call f recv args =
     (case f of
        JS_Function Instanceof \<Rightarrow>
          (case args of
             [x, JS_Function Arrow] \<Rightarrow> Nothing
           | [x, JS_Function g] \<Rightarrow> Just (JS_Boolean False)
           | _ \<Rightarrow> Nothing)
      | JS_Function Arrow \<Rightarrow> Just (JS_Int32 1)
      | JS_Function (Host cb) \<Rightarrow> Just JS_Null
      | _ \<Rightarrow> Nothing)"

definition js_NewInstance :: "js \<Rightarrow> js list \<Rightarrow> js Maybe" where
  "js_NewInstance f args =
     (case f of
        JS_Function Instanceof \<Rightarrow> Just (JS_Object [])
      | JS_Function (Host cb) \<Rightarrow> Just (JS_Object [])
      | _ \<Rightarrow> Nothing)"

text \<open>The scripts of the fragment; any other source text is a syntax error.\<close>

definition js_Compile :: "js \<Rightarrow> js \<Rightarrow> js Maybe" where
  "js_Compile source origin =
     (case source of
        JS_String code \<Rightarrow>
          (if code \<in> {''(function(x, y) { return (x instanceof y); })'', ''(() => 1)'',
                       ''1+2'', ''Symbol()'', ''throw null''}
           then Just (JS_Script code) else Nothing)
      | _ \<Rightarrow> Nothing)"

definition js_Run :: "js \<Rightarrow> js Maybe" where
  "js_Run script =
     (if script = JS_Script ''(function(x, y) { return (x instanceof y); })''
        then Just (JS_Function Instanceof)
      else if script = JS_Script ''(() => 1)'' then Just (JS_Function Arrow)
      else if script = JS_Script ''1+2'' then Just (JS_Int32 3)
      else if script = JS_Script ''Symbol()'' then Just JS_Symbol
      else Nothing)"

text \<open>
  What is caught after \<^verbatim>\<open>throw null\<close> in a script named \<^verbatim>\<open>t\<close> (what is thrown is no
  object, so there is no stack trace), and after \<^verbatim>\<open>x instanceof y\<close> failed in the helper.
\<close>

definition js_thrown_null :: "js TryCatch" where
  "js_thrown_null =
     \<lparr> TryCatch_Exception = JS_Null,
       TryCatch_Message =
         \<lparr> Message_Get = JS_String ''Uncaught null'',
           ResourceName = JS_String ''t'',
           GetLineNumber = Just 1,
           GetSourceLine = Just (JS_String ''throw null'') \<rparr>,
       TryCatch_StackTrace = Nothing \<rparr>"

definition js_TypeError :: "js TryCatch" where
  "js_TypeError =
     \<lparr> TryCatch_Exception = JS_Error ''TypeError'' ''Function has non-object prototype'',
       TryCatch_Message =
         \<lparr> Message_Get = JS_String ''Uncaught TypeError: Function has non-object prototype'',
           ResourceName = JS_String ''instanceof'',
           GetLineNumber = Just 1,
           GetSourceLine = Just (JS_String ''(function(x, y) { return (x instanceof y); })'') \<rparr>,
       TryCatch_StackTrace =
         Just (JS_String ''TypeError: Function has non-object prototype at instanceof:1:29'') \<rparr>"

text \<open>The engine, given what its \<^verbatim>\<open>TryCatch\<close> reports in the scenario at hand.\<close>

definition js_engine :: "js TryCatch \<Rightarrow> js engine" where
  "js_engine caught =
     \<lparr> IsInt32 = (\<lambda>v. case v of JS_Int32 n \<Rightarrow> True | _ \<Rightarrow> False),
       IsNumber = js_IsNumber,
       IsNumberObject = (\<lambda>v. case v of JS_NumberObject d \<Rightarrow> True | _ \<Rightarrow> False),
       IsBoolean = (\<lambda>v. case v of JS_Boolean b \<Rightarrow> True | _ \<Rightarrow> False),
       IsBooleanObject = (\<lambda>v. case v of JS_BooleanObject b \<Rightarrow> True | _ \<Rightarrow> False),
       IsString = (\<lambda>v. case v of JS_String s \<Rightarrow> True | _ \<Rightarrow> False),
       IsStringObject = (\<lambda>v. case v of JS_StringObject s \<Rightarrow> True | _ \<Rightarrow> False),
       IsArray = (\<lambda>v. case v of JS_Array xs p \<Rightarrow> True | _ \<Rightarrow> False),
       IsFunction = (\<lambda>v. case v of JS_Function f \<Rightarrow> True | _ \<Rightarrow> False),
       IsObject = js_IsObject,
       IsUndefined = (\<lambda>v. v = JS_Undefined),
       IsNull = (\<lambda>v. v = JS_Null),
       Int32Value = js_Int32Value,
       NumberValue = js_NumberValue,
       BooleanValue = js_BooleanValue,
       ToString = js_ToString,
       ToObject = js_ToObject,
       Utf8Value = js_Utf8Value,
       Null = JS_Null,
       Int32_New = JS_Int32,
       Number_New = JS_Number,
       NewFromUtf8 = JS_String,
       Boolean_New = JS_Boolean,
       String_Empty = JS_String [],
       Function_New = (\<lambda>cb. Just (JS_Function (Host cb))),
       Object_Get = js_Get,
       Object_Get_index = js_Get_index,
       Object_Set = (\<lambda>ob key x. Just True),
       Object_Set_index = (\<lambda>ob i x. Just True),
       GetPropertyNames = js_GetPropertyNames,
       Array_Length = js_Length,
       Has = js_Has,
       Equals = (\<lambda>a b. Just (a = b)),
       Function_Call = js_Call,
       Function_Call_recv =
         (\<lambda>f recv args. case js_Call f recv args of Nothing \<Rightarrow> None | Just r \<Rightarrow> Some r),
       NewInstance = js_NewInstance,
       Script_Compile = js_Compile,
       Script_Run = js_Run,
       Global = JS_Object [],
       TryCatch_new = caught \<rparr>"

text \<open>
  The state before any Context was made, and a state in which a Context is live, with
  handler \<open>h\<close> and the bootstrap helper.
\<close>

definition js_start :: "js context_state" where
  "js_start =
     \<lparr> platform = False, isolate = False, scriptExceptionHandler = None,
       instanceOf = None, trace = [] \<rparr>"


definition js_live :: "nat option \<Rightarrow> js context_state" where
  "js_live h =
     \<lparr> platform = True, isolate = True, scriptExceptionHandler = h,
       instanceOf = Some (Function (JS_Function Instanceof)), trace = [] \<rparr>"

section \<open>Properties\<close>

subsection \<open>The small engine, field by field\<close>

lemma js_engine_sel:
  "IsInt32 (js_engine c) = (\<lambda>v. case v of JS_Int32 n \<Rightarrow> True | _ \<Rightarrow> False)"
  "IsNumber (js_engine c) = js_IsNumber"
  "IsNumberObject (js_engine c) = (\<lambda>v. case v of JS_NumberObject d \<Rightarrow> True | _ \<Rightarrow> False)"
  "IsBoolean (js_engine c) = (\<lambda>v. case v of JS_Boolean b \<Rightarrow> True | _ \<Rightarrow> False)"
  "IsBooleanObject (js_engine c) = (\<lambda>v. case v of JS_BooleanObject b \<Rightarrow> True | _ \<Rightarrow> False)"
  "IsString (js_engine c) = (\<lambda>v. case v of JS_String s \<Rightarrow> True | _ \<Rightarrow> False)"
  "IsStringObject (js_engine c) = (\<lambda>v. case v of JS_StringObject s \<Rightarrow> True | _ \<Rightarrow> False)"
  "IsArray (js_engine c) = (\<lambda>v. case v of JS_Array xs p \<Rightarrow> True | _ \<Rightarrow> False)"
  "IsFunction (js_engine c) = (\<lambda>v. case v of JS_Function f \<Rightarrow> True | _ \<Rightarrow> False)"
  "IsObject (js_engine c) = js_IsObject"
  "IsUndefined (js_engine c) = (\<lambda>v. v = JS_Undefined)"
  "IsNull (js_engine c) = (\<lambda>v. v = JS_Null)"
  "Int32Value (js_engine c) = js_Int32Value"
  "NumberValue (js_engine c) = js_NumberValue"
  "BooleanValue (js_engine c) = js_BooleanValue"
  "ToString (js_engine c) = js_ToString"
  "ToObject (js_engine c) = js_ToObject"
  "Utf8Value (js_engine c) = js_Utf8Value"
  "Null (js_engine c) = JS_Null"
  "Int32_New (js_engine c) = JS_Int32"
  "Number_New (js_engine c) = JS_Number"
  "NewFromUtf8 (js_engine c) = JS_String"
  "Boolean_New (js_engine c) = JS_Boolean"
  "String_Empty (js_engine c) = JS_String []"
  "Function_New (js_engine c) = (\<lambda>cb. Just (JS_Function (Host cb)))"
  "Object_Get (js_engine c) = js_Get"
  "Object_Get_index (js_engine c) = js_Get_index"
  "Object_Set (js_engine c) = (\<lambda>ob key x. Just True)"
  "Object_Set_index (js_engine c) = (\<lambda>ob i x. Just True)"
  "GetPropertyNames (js_engine c) = js_GetPropertyNames"
  "Array_Length (js_engine c) = js_Length"
  "Has (js_engine c) = js_Has"
  "Equals (js_engine c) = (\<lambda>a b. Just (a = b))"
  "Function_Call (js_engine c) = js_Call"
  "Function_Call_recv (js_engine c) =
     (\<lambda>f recv args. case js_Call f recv args of Nothing \<Rightarrow> None | Just r \<Rightarrow> Some r)"
  "NewInstance (js_engine c) = js_NewInstance"
  "Script_Compile (js_engine c) = js_Compile"
  "Script_Run (js_engine c) = js_Run"
  "Global (js_engine c) = JS_Object []"
  "TryCatch_new (js_engine c) = c"
  by (simp_all add: js_engine_def)

lemmas js_defs = js_IsNumber_def js_IsObject_def js_Int32Value_def js_NumberValue_def
  js_BooleanValue_def js_ToString_def js_ToObject_def js_Utf8Value_def

lemma js_state_sel:
  "isolate (js_live h) = True"
  "scriptExceptionHandler (js_live h) = h"
  "instanceOf (js_live h) = Some (Function (JS_Function Instanceof))"
  "trace (js_live h) = []"
  "isolate js_start = False"
  "scriptExceptionHandler js_start = None"
  by (simp_all add: js_live_def js_start_def)

lemma exception_specification_simps:
  "exception_specification (Inl (Script e)) = (Inl unexpected :: error + 'a)"
  "exception_specification (Inl (runtime_error m)) = (Inl (runtime_error m) :: error + 'a)"
  "exception_specification (Inl unexpected) = (Inl unexpected :: error + 'a)"
  "exception_specification (Inl NullDereference) = (Inl NullDereference :: error + 'a)"
  "exception_specification (Inl InvalidDowncast) = (Inl InvalidDowncast :: error + 'a)"
  "exception_specification (Inr x) = Inr x"
  by (simp_all add: exception_specification_def)

lemma exception_specification_idem:
  "exception_specification (exception_specification r) = exception_specification r"
  by (simp add: exception_specification_def split: sum.split error.split)

lemma exception_specification_no_Script:
  "exception_specification r \<noteq> Inl (Script e)"
  by (simp add: exception_specification_def split: sum.split error.split)

subsection \<open>Classification by \<^verbatim>\<open>Wrap\<close>\<close>

text \<open>
  Claim C2. \<^verbatim>\<open>Context::Wrap\<close> tests the engine's predicates in a fixed order and the
  first that holds decides the result: a 32-bit integer gives an \<^verbatim>\<open>Int\<close>, then a number or
  boxed number a \<^verbatim>\<open>Double\<close>, then a boolean or boxed boolean a \<^verbatim>\<open>Bool\<close>, then a string or
  boxed string a \<^verbatim>\<open>String\<close>, then an array an \<^verbatim>\<open>Array\<close>, then a function a \<^verbatim>\<open>Function\<close>,
  then an object an \<^verbatim>\<open>Object\<close>; each through the engine's conversion (should the
  conversion fail, its exception does not pass the exception specification of \<^verbatim>\<open>Wrap\<close>).
  A value that is none of these and is \<^verbatim>\<open>undefined\<close> or \<^verbatim>\<open>null\<close> gives the null pointer,
  and a value that matches nothing raises the \<^verbatim>\<open>std::runtime_error\<close>
  \<^verbatim>\<open>Unhandled type in V8Simple\<close>, which is no \<^verbatim>\<open>ScriptException\<close>.
\<close>

theorem Wrap_classification_order:
  "(IsInt32 eng v \<longrightarrow>
      Wrap eng tc v =
        (case Int32Value eng v of
           Nothing \<Rightarrow> Inl unexpected | Just i \<Rightarrow> Inr (Some (Int' i))))
   \<and> (\<not> IsInt32 eng v \<and> (IsNumber eng v \<or> IsNumberObject eng v) \<longrightarrow>
      Wrap eng tc v =
        (case NumberValue eng v of
           Nothing \<Rightarrow> Inl unexpected | Just d \<Rightarrow> Inr (Some (Double d))))
   \<and> (\<not> IsInt32 eng v \<and> \<not> (IsNumber eng v \<or> IsNumberObject eng v)
        \<and> (IsBoolean eng v \<or> IsBooleanObject eng v) \<longrightarrow>
      Wrap eng tc v =
        (case BooleanValue eng v of
           Nothing \<Rightarrow> Inl unexpected | Just b \<Rightarrow> Inr (Some (Bool b))))
   \<and> (\<not> IsInt32 eng v \<and> \<not> (IsNumber eng v \<or> IsNumberObject eng v)
        \<and> \<not> (IsBoolean eng v \<or> IsBooleanObject eng v)
        \<and> (IsString eng v \<or> IsStringObject eng v) \<longrightarrow>
      Wrap eng tc v =
        (case ToString eng v of
           Nothing \<Rightarrow> Inl unexpected
         | Just s \<Rightarrow>
             (case Utf8Value eng s of
                None \<Rightarrow> Inl NullDereference | Some str \<Rightarrow> Inr (Some (String str)))))
   \<and> (\<not> IsInt32 eng v \<and> \<not> (IsNumber eng v \<or> IsNumberObject eng v)
        \<and> \<not> (IsBoolean eng v \<or> IsBooleanObject eng v)
        \<and> \<not> (IsString eng v \<or> IsStringObject eng v) \<and> IsArray eng v \<longrightarrow>
      Wrap eng tc v =
        (case ToObject eng v of
           Nothing \<Rightarrow> Inl unexpected | Just a \<Rightarrow> Inr (Some (Array a))))
   \<and> (\<not> IsInt32 eng v \<and> \<not> (IsNumber eng v \<or> IsNumberObject eng v)
        \<and> \<not> (IsBoolean eng v \<or> IsBooleanObject eng v)
        \<and> \<not> (IsString eng v \<or> IsStringObject eng v) \<and> \<not> IsArray eng v
        \<and> IsFunction eng v \<longrightarrow>
      Wrap eng tc v =
        (case ToObject eng v of
           Nothing \<Rightarrow> Inl unexpected | Just f \<Rightarrow> Inr (Some (Function f))))
   \<and> (\<not> IsInt32 eng v \<and> \<not> (IsNumber eng v \<or> IsNumberObject eng v)
        \<and> \<not> (IsBoolean eng v \<or> IsBooleanObject eng v)
        \<and> \<not> (IsString eng v \<or> IsStringObject eng v) \<and> \<not> IsArray eng v
        \<and> \<not> IsFunction eng v \<and> IsObject eng v \<longrightarrow>
      Wrap eng tc v =
        (case ToObject eng v of
           Nothing \<Rightarrow> Inl unexpected | Just ob \<Rightarrow> Inr (Some (Object ob))))
   \<and> (\<not> IsInt32 eng v \<and> \<not> (IsNumber eng v \<or> IsNumberObject eng v)
        \<and> \<not> (IsBoolean eng v \<or> IsBooleanObject eng v)
        \<and> \<not> (IsString eng v \<or> IsStringObject eng v) \<and> \<not> IsArray eng v
        \<and> \<not> IsFunction eng v \<and> \<not> IsObject eng v
        \<and> (IsUndefined eng v \<or> IsNull eng v) \<longrightarrow>
      Wrap eng tc v = Inr None)
   \<and> (\<not> IsInt32 eng v \<and> \<not> (IsNumber eng v \<or> IsNumberObject eng v)
        \<and> \<not> (IsBoolean eng v \<or> IsBooleanObject eng v)
        \<and> \<not> (IsString eng v \<or> IsStringObject eng v) \<and> \<not> IsArray eng v
        \<and> \<not> IsFunction eng v \<and> \<not> IsObject eng v
        \<and> \<not> (IsUndefined eng v \<or> IsNull eng v) \<longrightarrow>
      Wrap eng tc v = Inl (runtime_error ''Unhandled type in V8Simple'')
      \<and> (\<forall>e. Wrap eng tc v \<noteq> Inl (Script e)))"
  by (simp add: Wrap_def FromJust_def exception_specification_simps
      split: Maybe.split option.split)

theorem Wrap_classification_order_witness:
  "Wrap (js_engine js_thrown_null) js_thrown_null (JS_Int32 5) = Inr (Some (Int' 5))
   \<and> Wrap (js_engine js_thrown_null) js_thrown_null (JS_Number 7) = Inr (Some (Double 7))
   \<and> Wrap (js_engine js_thrown_null) js_thrown_null (JS_Boolean True) = Inr (Some (Bool True))
   \<and> Wrap (js_engine js_thrown_null) js_thrown_null (JS_String ''a'') = Inr (Some (String ''a''))
   \<and> Wrap (js_engine js_thrown_null) js_thrown_null (JS_Array [] None)
       = Inr (Some (Array (JS_Array [] None)))
   \<and> Wrap (js_engine js_thrown_null) js_thrown_null (JS_Function Arrow) = Inr (Some (Function (JS_Function Arrow)))
   \<and> Wrap (js_engine js_thrown_null) js_thrown_null (JS_Object []) = Inr (Some (Object (JS_Object [])))
   \<and> Wrap (js_engine js_thrown_null) js_thrown_null JS_Null = Inr None
   \<and> Wrap (js_engine js_thrown_null) js_thrown_null JS_Undefined = Inr None
   \<and> Wrap (js_engine js_thrown_null) js_thrown_null JS_Symbol = Inl (runtime_error ''Unhandled type in V8Simple'')"
  using Wrap_classification_order [of "js_engine js_thrown_null" "JS_Int32 5" js_thrown_null]
    Wrap_classification_order [of "js_engine js_thrown_null" "JS_Number 7" js_thrown_null]
    Wrap_classification_order [of "js_engine js_thrown_null" "JS_Boolean True" js_thrown_null]
    Wrap_classification_order [of "js_engine js_thrown_null" "JS_String ''a''" js_thrown_null]
    Wrap_classification_order [of "js_engine js_thrown_null" "JS_Array [] None" js_thrown_null]
    Wrap_classification_order [of "js_engine js_thrown_null" "JS_Function Arrow" js_thrown_null]
    Wrap_classification_order [of "js_engine js_thrown_null" "JS_Object []" js_thrown_null]
    Wrap_classification_order [of "js_engine js_thrown_null" "JS_Null" js_thrown_null]
    Wrap_classification_order [of "js_engine js_thrown_null" "JS_Undefined" js_thrown_null]
    Wrap_classification_order [of "js_engine js_thrown_null" "JS_Symbol" js_thrown_null]
  by (simp add: js_engine_sel js_defs)

text \<open>
  Claim C10. A boxed number, boolean or string, which the engine also counts as an
  object, is converted by \<^verbatim>\<open>Context::Wrap\<close> to a \<^verbatim>\<open>Double\<close>, \<^verbatim>\<open>Bool\<close> or \<^verbatim>\<open>String\<close> (or
  the conversion fails), and never to an \<^verbatim>\<open>Object\<close>.
\<close>

theorem Wrap_boxed_scalars:
  "(IsNumberObject eng v \<and> \<not> IsInt32 eng v \<longrightarrow>
      Wrap eng tc v =
        (case NumberValue eng v of
           Nothing \<Rightarrow> Inl unexpected | Just d \<Rightarrow> Inr (Some (Double d))))
   \<and> (IsBooleanObject eng v \<and> \<not> IsInt32 eng v \<and> \<not> IsNumber eng v \<and> \<not> IsNumberObject eng v \<longrightarrow>
      Wrap eng tc v =
        (case BooleanValue eng v of
           Nothing \<Rightarrow> Inl unexpected | Just b \<Rightarrow> Inr (Some (Bool b))))
   \<and> (IsStringObject eng v \<and> \<not> IsInt32 eng v \<and> \<not> IsNumber eng v \<and> \<not> IsNumberObject eng v
        \<and> \<not> IsBoolean eng v \<and> \<not> IsBooleanObject eng v \<longrightarrow>
      Wrap eng tc v =
        (case ToString eng v of
           Nothing \<Rightarrow> Inl unexpected
         | Just s \<Rightarrow>
             (case Utf8Value eng s of
                None \<Rightarrow> Inl NullDereference | Some str \<Rightarrow> Inr (Some (String str)))))
   \<and> (IsNumberObject eng v \<or> IsBooleanObject eng v \<or> IsStringObject eng v \<longrightarrow>
      (\<forall>ob. Wrap eng tc v \<noteq> Inr (Some (Object ob))))"
  by (simp add: Wrap_def FromJust_def exception_specification_simps
      split: Maybe.split option.split)

theorem Wrap_boxed_scalars_witness:
  "IsObject (js_engine js_thrown_null) (JS_NumberObject 7)
   \<and> Wrap (js_engine js_thrown_null) js_thrown_null (JS_NumberObject 7) = Inr (Some (Double 7))
   \<and> IsObject (js_engine js_thrown_null) (JS_BooleanObject False)
   \<and> Wrap (js_engine js_thrown_null) js_thrown_null (JS_BooleanObject False) = Inr (Some (Bool True))
   \<and> IsObject (js_engine js_thrown_null) (JS_StringObject ''a'')
   \<and> Wrap (js_engine js_thrown_null) js_thrown_null (JS_StringObject ''a'') = Inr (Some (String ''a''))
   \<and> Wrap (js_engine js_thrown_null) js_thrown_null (JS_StringObject ''a'')
       \<noteq> Inr (Some (Object (JS_StringObject ''a'')))"
  using Wrap_boxed_scalars [of "js_engine js_thrown_null" "JS_NumberObject 7" js_thrown_null]
    Wrap_boxed_scalars [of "js_engine js_thrown_null" "JS_BooleanObject False" js_thrown_null]
    Wrap_boxed_scalars [of "js_engine js_thrown_null" "JS_StringObject ''a''" js_thrown_null]
  by (simp add: js_engine_sel js_defs)

subsection \<open>The buffer of a \<^verbatim>\<open>String\<close>\<close>

lemma foldr_max_ge: "x \<in> set xs \<Longrightarrow> x \<le> foldr max xs (a::nat)"
  by (induction xs) auto

lemma heap_new_fresh: "map_of h (heap_new h) = None"
proof -
  have "heap_new h \<notin> fst ` set h"
  proof
    assume "heap_new h \<in> fst ` set h"
    then have "heap_new h \<in> set (map fst h)" by simp
    then have "heap_new h \<le> foldr max (map fst h) 0" by (rule foldr_max_ge)
    then show False by (simp add: heap_new_def)
  qed
  then show ?thesis by (simp add: map_of_eq_None_iff)
qed

lemma heap_new_neq: "map_of h a = Some buf \<Longrightarrow> heap_new h \<noteq> a"
  using heap_new_fresh [of h] by auto

lemma map_of_heap_delete:
  "map_of (heap_delete h a) b = (if b = a then None else map_of h b)"
  by (induction h) (auto simp: heap_delete_def)

lemma map_of_heap_write:
  "map_of (heap_write h a i c) b =
     (if b = a then map_option (\<lambda>buf. buf[i := c]) (map_of h a) else map_of h b)"
  by (induction h) (auto simp: heap_write_def)

lemma narrow_size_t:
  "n < 2 ^ 31 \<Longrightarrow> sint (word_of_nat n :: int32) = int n"
proof -
  assume "n < 2 ^ 31"
  then have "int n < 2 ^ 31" by simp
  then have "signed_take_bit 31 (int n) = int n"
    by (simp add: signed_take_bit_int_eq_self)
  then show ?thesis
    using signed_of_nat [of n, where ?'a = int and ?'b = 32] by simp
qed

lemma String_new2_Inr:
  "sint len < 2 ^ 31 - 1 \<Longrightarrow> 0 \<le> sint len + 1 \<Longrightarrow> nat (sint len + 1) \<le> length src \<Longrightarrow>
   String_new2 h src len =
     Inr (\<lparr> String_value = heap_new h, String_length = len \<rparr>,
          (heap_new h, take (nat (sint len + 1)) src) # h)"
  by (simp add: String_new2_def Let_def)

lemma String_new2_terminated:
  assumes "String_new2 h src len = Inr (s, h')"
  shows "null_terminated h' s \<longleftrightarrow> 0 \<le> sint len \<and> src ! nat (sint len) = CHR 0x00"
proof -
  from assms have m: "sint len < 2 ^ 31 - 1"
    using sint_lt [of len] by (auto simp: String_new2_def split: if_splits)
  from assms have a: "0 \<le> sint len + 1" and b: "nat (sint len + 1) \<le> length src"
    by (auto simp: String_new2_def split: if_splits)
  from assms String_new2_Inr [OF m a b, of h]
  have s: "s = \<lparr> String_value = heap_new h, String_length = len \<rparr>"
    and h': "h' = (heap_new h, take (nat (sint len + 1)) src) # h" by simp_all
  show ?thesis
  proof (cases "0 \<le> sint len")
    case True
    with b have "nat (sint len) < length src" "nat (sint len + 1) = nat (sint len) + 1" by auto
    with True b show ?thesis
      by (simp add: null_terminated_def GetValue_def s h')
  next
    case False
    then show ?thesis by (simp add: null_terminated_def GetValue_def s h')
  qed
qed

lemma strlen_takeWhile:
  "CHR 0x00 \<in> set src \<Longrightarrow>
   length (takeWhile (\<lambda>c. c \<noteq> CHR 0x00) src) < length src
   \<and> src ! length (takeWhile (\<lambda>c. c \<noteq> CHR 0x00) src) = CHR 0x00"
  by (induction src) auto

lemma String_new1_INT_MAX:
  assumes "CHR 0x00 \<in> set src"
    and "length (takeWhile (\<lambda>c. c \<noteq> CHR 0x00) src) = 2 ^ 31 - 1"
  shows "String_new1 h src = Inl SignedOverflow"
proof -
  have "sint (word_of_nat (2 ^ 31 - 1) :: int32) = 2 ^ 31 - 1"
    using narrow_size_t [of "2 ^ 31 - 1"] by simp
  with assms show ?thesis
    by (simp add: String_new1_def strlen_def String_new2_def)
qed

text \<open>
  Claim C6, as stated, fails for the two-argument constructor: \<^verbatim>\<open>String("abc", 1)\<close>
  has the buffer \<^verbatim>\<open>ab\<close> and the length 1, and the byte at index 1 is not null.
\<close>

theorem String_new2_unterminated_counterexample:
  "String_new2 [] [CHR ''a'', CHR ''b'', CHR ''c'', CHR 0x00] 1
     = Inr (\<lparr> String_value = 1, String_length = 1 \<rparr>, [(1, [CHR ''a'', CHR ''b''])])
   \<and> \<not> null_terminated [(1, [CHR ''a'', CHR ''b''])] \<lparr> String_value = 1, String_length = 1 \<rparr>"
  by (simp add: String_new2_def heap_new_def null_terminated_def GetValue_def)

text \<open>
  Claim C6, amended. Copy-constructing from a \<^verbatim>\<open>String\<close> \<open>s\<close> whose buffer has
  \<open>length + 1\<close> bytes, the length being below the greatest \<^verbatim>\<open>int\<close>, allocates a buffer
  at an address that no live array has, holding the same bytes; a store through the
  buffer of \<open>s\<close>, or the destruction of \<open>s\<close>, leaves the bytes of the copy as they
  are; and the copy is null-terminated when \<open>s\<close> is. \<^verbatim>\<open>String(const char*)\<close> of a text
  of fewer than \<open>2 ^ 31 - 1\<close> bytes gives a buffer that is null-terminated at index
  \<open>length\<close>. \<^verbatim>\<open>String(value, length)\<close> gives one exactly when \<open>value[length]\<close> is the
  null byte.
\<close>

theorem String_constructors:
  "(map_of h (GetValue s) = Some buf \<and> 0 \<le> sint (String_length s)
      \<and> sint (String_length s) < 2 ^ 31 - 1
      \<and> length buf = nat (sint (String_length s)) + 1 \<longrightarrow>
      String_copy h s =
        Inr (\<lparr> String_value = heap_new h, String_length = String_length s \<rparr>,
             (heap_new h, buf) # h)
      \<and> heap_new h \<noteq> GetValue s \<and> map_of h (heap_new h) = None
      \<and> (\<forall>i c. map_of (heap_write ((heap_new h, buf) # h) (GetValue s) i c) (heap_new h)
                 = Some buf)
      \<and> map_of (String_delete ((heap_new h, buf) # h) s) (heap_new h) = Some buf
      \<and> (null_terminated h s \<longrightarrow>
           null_terminated ((heap_new h, buf) # h)
             \<lparr> String_value = heap_new h, String_length = String_length s \<rparr>))
   \<and> (CHR 0x00 \<in> set src \<and> length (takeWhile (\<lambda>c. c \<noteq> CHR 0x00) src) < 2 ^ 31 - 1 \<longrightarrow>
        (case String_new1 h src of
           Inl e \<Rightarrow> False
         | Inr (s1, h1) \<Rightarrow>
             null_terminated h1 s1
             \<and> map_of h1 (GetValue s1) = Some (takeWhile (\<lambda>c. c \<noteq> CHR 0x00) src @ [CHR 0x00])))
   \<and> (String_new2 h src len = Inr (s2, h2) \<longrightarrow>
        (null_terminated h2 s2 \<longleftrightarrow> 0 \<le> sint len \<and> src ! nat (sint len) = CHR 0x00))"
proof (intro conjI impI)
  assume a: "map_of h (GetValue s) = Some buf \<and> 0 \<le> sint (String_length s)
      \<and> sint (String_length s) < 2 ^ 31 - 1
      \<and> length buf = nat (sint (String_length s)) + 1"
  then have len: "nat (sint (String_length s) + 1) = length buf" by auto
  from a have fresh: "heap_new h \<noteq> GetValue s" by (auto dest: heap_new_neq)
  from a len show "String_copy h s =
        Inr (\<lparr> String_value = heap_new h, String_length = String_length s \<rparr>,
             (heap_new h, buf) # h)"
    by (simp add: String_copy_def GetValue_def String_new2_Inr)
  show "heap_new h \<noteq> GetValue s" by (rule fresh)
  show "map_of h (heap_new h) = None" by (rule heap_new_fresh)
  from fresh show "\<forall>i c. map_of (heap_write ((heap_new h, buf) # h) (GetValue s) i c) (heap_new h)
                 = Some buf"
    by (simp add: map_of_heap_write)
  from fresh show "map_of (String_delete ((heap_new h, buf) # h) s) (heap_new h) = Some buf"
    by (simp add: String_delete_def GetValue_def map_of_heap_delete)
  assume "null_terminated h s"
  with a show "null_terminated ((heap_new h, buf) # h)
             \<lparr> String_value = heap_new h, String_length = String_length s \<rparr>"
    by (simp add: null_terminated_def GetValue_def)
next
  assume zb: "CHR 0x00 \<in> set src \<and> length (takeWhile (\<lambda>c. c \<noteq> CHR 0x00) src) < 2 ^ 31 - 1"
  then have z: "CHR 0x00 \<in> set src" by simp
  let ?n = "length (takeWhile (\<lambda>c. c \<noteq> CHR 0x00) src)"
  from zb have "?n < 2 ^ 31" by simp
  then have sn: "sint (word_of_nat ?n :: int32) = int ?n" by (rule narrow_size_t)
  from strlen_takeWhile [OF z] have n: "?n < length src" and at: "src ! ?n = CHR 0x00"
    by simp_all
  have new2: "String_new2 h src (word_of_nat ?n) =
      Inr (\<lparr> String_value = heap_new h, String_length = word_of_nat ?n \<rparr>,
           (heap_new h, take (Suc ?n) src) # h)"
    using zb n String_new2_Inr [of "word_of_nat ?n" src h] by (simp add: sn nat_add_distrib)
  then have new: "String_new1 h src =
      Inr (\<lparr> String_value = heap_new h, String_length = word_of_nat ?n \<rparr>,
           (heap_new h, take (Suc ?n) src) # h)"
    using z by (simp add: String_new1_def strlen_def)
  have "take (Suc ?n) src = take ?n src @ [src ! ?n]"
    using n by (rule take_Suc_conv_app_nth)
  moreover have "take ?n src = takeWhile (\<lambda>c. c \<noteq> CHR 0x00) src"
    by (metis takeWhile_eq_take)
  ultimately have bytes: "take (Suc ?n) src = takeWhile (\<lambda>c. c \<noteq> CHR 0x00) src @ [CHR 0x00]"
    using at by simp
  from String_new2_terminated [OF new2] at
  have "null_terminated ((heap_new h, take (Suc ?n) src) # h)
      \<lparr> String_value = heap_new h, String_length = word_of_nat ?n \<rparr>"
    by (simp add: sn)
  with bytes show "case String_new1 h src of
           Inl e \<Rightarrow> False
         | Inr (s1, h1) \<Rightarrow>
             null_terminated h1 s1
             \<and> map_of h1 (GetValue s1) = Some (takeWhile (\<lambda>c. c \<noteq> CHR 0x00) src @ [CHR 0x00])"
    by (simp add: new GetValue_def)
next
  assume "String_new2 h src len = Inr (s2, h2)"
  then show "null_terminated h2 s2 \<longleftrightarrow> 0 \<le> sint len \<and> src ! nat (sint len) = CHR 0x00"
    by (rule String_new2_terminated)
qed

theorem String_constructors_witness:
  "String_copy [(1, [CHR ''h'', CHR ''i'', CHR 0x00])] \<lparr> String_value = 1, String_length = 2 \<rparr>
     = Inr (\<lparr> String_value = 2, String_length = 2 \<rparr>,
            [(2, [CHR ''h'', CHR ''i'', CHR 0x00]), (1, [CHR ''h'', CHR ''i'', CHR 0x00])])
   \<and> map_of (heap_write [(2, [CHR ''h'', CHR ''i'', CHR 0x00]), (1, [CHR ''h'', CHR ''i'', CHR 0x00])]
               1 0 (CHR ''X'')) 2
       = Some [CHR ''h'', CHR ''i'', CHR 0x00]
   \<and> map_of (String_delete [(2, [CHR ''h'', CHR ''i'', CHR 0x00]), (1, [CHR ''h'', CHR ''i'', CHR 0x00])]
               \<lparr> String_value = 1, String_length = 2 \<rparr>) 2
       = Some [CHR ''h'', CHR ''i'', CHR 0x00]
   \<and> null_terminated [(2, [CHR ''h'', CHR ''i'', CHR 0x00]), (1, [CHR ''h'', CHR ''i'', CHR 0x00])]
        \<lparr> String_value = 2, String_length = 2 \<rparr>
   \<and> String_new1 [] [CHR ''h'', CHR ''i'', CHR 0x00, CHR ''x'']
       = Inr (\<lparr> String_value = 1, String_length = 2 \<rparr>, [(1, [CHR ''h'', CHR ''i'', CHR 0x00])])
   \<and> null_terminated [(1, [CHR ''h'', CHR ''i'', CHR 0x00])] \<lparr> String_value = 1, String_length = 2 \<rparr>
   \<and> String_new2 [] [CHR ''h'', CHR ''i'', CHR 0x00] 2
       = Inr (\<lparr> String_value = 1, String_length = 2 \<rparr>, [(1, [CHR ''h'', CHR ''i'', CHR 0x00])])"
  using String_constructors [of "[(1, [CHR ''h'', CHR ''i'', CHR 0x00])]"
      "\<lparr> String_value = 1, String_length = 2 \<rparr>" "[CHR ''h'', CHR ''i'', CHR 0x00]"
      "[CHR ''h'', CHR ''i'', CHR 0x00, CHR ''x'']" 2
      "\<lparr> String_value = 1, String_length = 2 \<rparr>" "[(1, [CHR ''h'', CHR ''i'', CHR 0x00])]"]
    String_constructors [of "[]" "\<lparr> String_value = 1, String_length = 2 \<rparr>" "[]"
      "[CHR ''h'', CHR ''i'', CHR 0x00]" 2
      "\<lparr> String_value = 1, String_length = 2 \<rparr>" "[(1, [CHR ''h'', CHR ''i'', CHR 0x00])]"]
  by (simp add: GetValue_def heap_new_def null_terminated_def String_new1_def strlen_def
      String_new2_def heap_write_def String_delete_def heap_delete_def)

subsection \<open>Exception translation\<close>

lemma js_caught_sel:
  "TryCatch_StackTrace js_thrown_null = Nothing"
  "GetLineNumber (TryCatch_Message js_thrown_null) = Just 1"
  "GetSourceLine (TryCatch_Message js_thrown_null) = Just (JS_String ''throw null'')"
  "TryCatch_StackTrace js_TypeError
     = Just (JS_String ''TypeError: Function has non-object prototype at instanceof:1:29'')"
  by (simp_all add: js_thrown_null_def js_TypeError_def)

text \<open>
  Claim C7. An empty result of an engine operation raises the \<^verbatim>\<open>ScriptException\<close> that
  \<^verbatim>\<open>Context::Throw\<close> builds from the pending error. Its \<^verbatim>\<open>LineNumber\<close> is the line number
  the engine reports, and \<open>-1\<close> when the engine reports none. Its \<^verbatim>\<open>StackTrace\<close> is the text
  of the stack trace the engine gives, and the empty string when it gives none; its
  \<^verbatim>\<open>SourceLine\<close> is the text of the source line, and the empty string when the engine gives
  none. (The empty string is the text of the engine's own empty string.)
\<close>

theorem Throw_fields:
  "FromJust eng tc (Nothing :: 'v Maybe) = Inl (Script (Throw eng tc))
   \<and> (GetLineNumber (TryCatch_Message tc) = Just n \<longrightarrow> LineNumber (Throw eng tc) = n)
   \<and> (GetLineNumber (TryCatch_Message tc) = Nothing \<longrightarrow> LineNumber (Throw eng tc) = - 1)
   \<and> (TryCatch_StackTrace tc = Just s \<longrightarrow> StackTrace (Throw eng tc) = Utf8Value eng s)
   \<and> (TryCatch_StackTrace tc = Nothing \<and> Utf8Value eng (String_Empty eng) = Some [] \<longrightarrow>
        StackTrace (Throw eng tc) = Some [])
   \<and> (GetSourceLine (TryCatch_Message tc) = Just l \<longrightarrow>
        SourceLine (Throw eng tc) = Utf8Value eng l)
   \<and> (GetSourceLine (TryCatch_Message tc) = Nothing \<and> Utf8Value eng (String_Empty eng) = Some [] \<longrightarrow>
        SourceLine (Throw eng tc) = Some [])"
  by (simp add: FromJust_def Throw_def NewString_def Let_def split: option.split)

theorem Throw_fields_witness:
  "LineNumber (Throw (js_engine js_thrown_null) js_thrown_null) = 1
   \<and> StackTrace (Throw (js_engine js_thrown_null) js_thrown_null) = Some []
   \<and> SourceLine (Throw (js_engine js_thrown_null) js_thrown_null) = Some ''throw null''
   \<and> LineNumber (Throw (js_engine js_thrown_null)
        (js_thrown_null\<lparr>TryCatch_Message :=
           (TryCatch_Message js_thrown_null)\<lparr>GetLineNumber := Nothing, GetSourceLine := Nothing\<rparr>\<rparr>))
       = - 1
   \<and> SourceLine (Throw (js_engine js_thrown_null)
        (js_thrown_null\<lparr>TryCatch_Message :=
           (TryCatch_Message js_thrown_null)\<lparr>GetLineNumber := Nothing, GetSourceLine := Nothing\<rparr>\<rparr>))
       = Some []
   \<and> StackTrace (Throw (js_engine js_TypeError) js_TypeError)
       = Some ''TypeError: Function has non-object prototype at instanceof:1:29''"
  using Throw_fields [of "js_engine js_thrown_null" js_thrown_null 1 undefined "JS_String ''throw null''"]
    Throw_fields [of "js_engine js_thrown_null"
      "js_thrown_null\<lparr>TryCatch_Message :=
           (TryCatch_Message js_thrown_null)\<lparr>GetLineNumber := Nothing, GetSourceLine := Nothing\<rparr>\<rparr>"
      0 undefined undefined]
    Throw_fields [of "js_engine js_TypeError" js_TypeError 1
      "JS_String ''TypeError: Function has non-object prototype at instanceof:1:29''" undefined]
  by (auto simp: js_engine_sel js_caught_sel js_Utf8Value_def js_ToString_def)

subsection \<open>Batch conversion\<close>

lemma Unwrap_fst: "fst (Unwrap eng tc v st) = fst (Unwrap eng tc v st')"
  by (simp add: Unwrap_def split: option.split Value.split)

lemma UnwrapVector_loop_map:
  "\<forall>v\<in>set vs. \<not> isl (fst (Unwrap eng tc v st0)) \<Longrightarrow>
   fst (UnwrapVector_loop eng tc vs acc st)
     = Inr (acc @ map (\<lambda>v. projr (fst (Unwrap eng tc v st0))) vs)"
proof (induction vs arbitrary: acc st)
  case Nil
  then show ?case by simp
next
  case (Cons v vs)
  from Cons.prems have "\<not> isl (fst (Unwrap eng tc v st0))" by simp
  then have "\<not> isl (fst (Unwrap eng tc v st))" using Unwrap_fst [of eng tc v st st0] by simp
  moreover obtain r st' where p: "Unwrap eng tc v st = (r, st')"
    by (cases "Unwrap eng tc v st")
  ultimately obtain x where "r = Inr x" by (cases r) simp_all
  with p have u: "Unwrap eng tc v st = (Inr x, st')" by simp
  then have x: "projr (fst (Unwrap eng tc v st0)) = x"
    using Unwrap_fst [of eng tc v st0 st] by simp
  from Cons.prems have "\<forall>v\<in>set vs. \<not> isl (fst (Unwrap eng tc v st0))" by simp
  from Cons.IH [OF this, of "acc @ [x]" st'] u x show ?case by simp
qed

lemma UnwrapVector_loop_fails:
  "\<exists>v\<in>set vs. isl (fst (Unwrap eng tc v st0)) \<Longrightarrow>
   isl (fst (UnwrapVector_loop eng tc vs acc st))"
proof (induction vs arbitrary: acc st)
  case Nil
  then show ?case by simp
next
  case (Cons v vs)
  show ?case
  proof (cases "Unwrap eng tc v st")
    case (Pair r st')
    show ?thesis
    proof (cases r)
      case (Inl e)
      with Pair show ?thesis by simp
    next
      case (Inr x)
      with Pair have "\<not> isl (fst (Unwrap eng tc v st0))"
        using Unwrap_fst [of eng tc v st0 st] by simp
      with Cons.prems have "\<exists>v\<in>set vs. isl (fst (Unwrap eng tc v st0))" by auto
      from Cons.IH [OF this, of "acc @ [x]" st'] Pair Inr show ?thesis by simp
    qed
  qed
qed

lemma Unwrap_no_Callback:
  "\<forall>cb. v \<noteq> Some (Callback cb) \<Longrightarrow> \<not> isl (fst (Unwrap eng tc v st))"
  by (simp add: Unwrap_def split: option.split Value.split)

text \<open>
  Claim C8. \<^verbatim>\<open>Context::UnwrapVector\<close> returns the sequence of the \<^verbatim>\<open>Unwrap\<close> of each value,
  in order: it is as long as its argument and its \<open>i\<close>-th element is \<^verbatim>\<open>Unwrap\<close> of the
  \<open>i\<close>-th value. \<^verbatim>\<open>Unwrap\<close> can raise for a callback only (when the engine cannot make
  the function); \<^verbatim>\<open>UnwrapVector\<close> raises exactly when an \<^verbatim>\<open>Unwrap\<close> does.
\<close>

theorem UnwrapVector_maps_Unwrap:
  "((\<forall>v\<in>set vs. \<not> isl (fst (Unwrap eng tc v st))) \<longrightarrow>
      fst (UnwrapVector eng tc vs st) = Inr (map (\<lambda>v. projr (fst (Unwrap eng tc v st))) vs)
      \<and> length (projr (fst (UnwrapVector eng tc vs st))) = length vs
      \<and> (\<forall>i<length vs. \<forall>s.
            fst (Unwrap eng tc (vs ! i) s) = Inr (projr (fst (UnwrapVector eng tc vs st)) ! i)))
   \<and> ((\<exists>v\<in>set vs. isl (fst (Unwrap eng tc v st))) \<longrightarrow> isl (fst (UnwrapVector eng tc vs st)))
   \<and> ((\<forall>v\<in>set vs. \<forall>cb. v \<noteq> Some (Callback cb)) \<longrightarrow>
        (\<forall>v\<in>set vs. \<not> isl (fst (Unwrap eng tc v st))))"
proof (intro conjI impI)
  assume ok: "\<forall>v\<in>set vs. \<not> isl (fst (Unwrap eng tc v st))"
  from UnwrapVector_loop_map [OF ok, of "[]" st]
  show eq: "fst (UnwrapVector eng tc vs st)
      = Inr (map (\<lambda>v. projr (fst (Unwrap eng tc v st))) vs)"
    by (simp add: UnwrapVector_def)
  then show "length (projr (fst (UnwrapVector eng tc vs st))) = length vs" by simp
  show "\<forall>i<length vs. \<forall>s.
      fst (Unwrap eng tc (vs ! i) s) = Inr (projr (fst (UnwrapVector eng tc vs st)) ! i)"
  proof (intro allI impI)
    fix i s
    assume i: "i < length vs"
    with ok have "\<not> isl (fst (Unwrap eng tc (vs ! i) st))" by simp
    then have "fst (Unwrap eng tc (vs ! i) st) = Inr (projr (fst (Unwrap eng tc (vs ! i) st)))"
      by (cases "fst (Unwrap eng tc (vs ! i) st)") simp_all
    with i eq show "fst (Unwrap eng tc (vs ! i) s)
        = Inr (projr (fst (UnwrapVector eng tc vs st)) ! i)"
      using Unwrap_fst [of eng tc "vs ! i" s st] by simp
  qed
next
  assume "\<exists>v\<in>set vs. isl (fst (Unwrap eng tc v st))"
  from UnwrapVector_loop_fails [OF this, of "[]" st]
  show "isl (fst (UnwrapVector eng tc vs st))" by (simp add: UnwrapVector_def)
next
  assume "\<forall>v\<in>set vs. \<forall>cb. v \<noteq> Some (Callback cb)"
  then show "\<forall>v\<in>set vs. \<not> isl (fst (Unwrap eng tc v st))"
    by (auto dest: Unwrap_no_Callback)
qed

theorem UnwrapVector_maps_Unwrap_witness:
  "fst (UnwrapVector (js_engine js_thrown_null) js_thrown_null
         [Some (Int' 3), None, Some (String ''a''), Some (Callback 7), Some (Bool True)]
         (js_live (Some 0)))
     = Inr [JS_Int32 3, JS_Null, JS_String ''a'', JS_Function (Host 7), JS_Boolean True]"
  using UnwrapVector_maps_Unwrap [of
      "[Some (Int' 3), None, Some (String ''a''), Some (Callback 7), Some (Bool True)]"
      "js_engine js_thrown_null" js_thrown_null "js_live (Some 0)"]
  by (simp add: Unwrap_def FromJust_def js_engine_sel)

subsection \<open>Lifecycle errors\<close>

lemma HandleScriptException_fields:
  "platform (HandleScriptException e st) = platform st"
  "isolate (HandleScriptException e st) = isolate st"
  "scriptExceptionHandler (HandleScriptException e st) = scriptExceptionHandler st"
  "instanceOf (HandleScriptException e st) = instanceOf st"
  by (simp_all add: HandleScriptException_def Let_def split: option.split)

lemma catch_ScriptException_cases:
  "catch_ScriptException d (Inl (Script e), st) = (Inr d, HandleScriptException e st)"
  "\<forall>e. x \<noteq> Script e \<Longrightarrow> catch_ScriptException d (Inl x, st) = (Inl x, st)"
  "catch_ScriptException d (Inr y, st) = (Inr y, st)"
  by (simp_all add: catch_ScriptException_def split: error.split)

lemma catch_ScriptException_fields:
  "platform (snd (catch_ScriptException d r)) = platform (snd r)"
  "isolate (snd (catch_ScriptException d r)) = isolate (snd r)"
  "scriptExceptionHandler (snd (catch_ScriptException d r)) = scriptExceptionHandler (snd r)"
  "instanceOf (snd (catch_ScriptException d r)) = instanceOf (snd r)"
  by (simp_all add: catch_ScriptException_def HandleScriptException_fields
      split: prod.split sum.split error.split)

lemma throws_runtime_error_simps:
  "throws_runtime_error (Inl (Script e), st) = (Inl unexpected, st)"
  "throws_runtime_error (Inl (runtime_error m), st) = (Inl (runtime_error m), st)"
  "throws_runtime_error (Inl unexpected, st) = (Inl unexpected, st)"
  "throws_runtime_error (Inl NullDereference, st) = (Inl NullDereference, st)"
  "throws_runtime_error (Inl InvalidDowncast, st) = (Inl InvalidDowncast, st)"
  "throws_runtime_error (Inr x, st) = (Inr x, st)"
  "snd (throws_runtime_error r) = snd r"
  by (simp_all add: throws_runtime_error_def exception_specification_simps)

lemma throws_runtime_error_catch:
  "throws_runtime_error (catch_ScriptException d r) = catch_ScriptException d r"
  by (simp add: throws_runtime_error_def catch_ScriptException_def exception_specification_def
      split: prod.split sum.split error.split)

lemma Isolate_Scope_simps:
  "isolate st \<Longrightarrow> Isolate_Scope st body = body"
  "\<not> isolate st \<Longrightarrow> Isolate_Scope st body = (Inl NullDereference, st)"
  by (simp_all add: Isolate_Scope_def)

lemma Evaluate_fields:
  "isolate (snd (Evaluate eng fileName code st)) = isolate st"
  "platform (snd (Evaluate eng fileName code st)) = platform st"
  by (cases "isolate st";
      simp add: Evaluate_def throws_runtime_error_catch catch_ScriptException_fields
        Isolate_Scope_simps Let_def split: sum.split)+


lemma platform_init:
  "(if \<not> platform st then st\<lparr>platform := True\<rparr> else st) = st\<lparr>platform := True\<rparr>"
  by (cases "platform st") simp_all

lemma Context_new_live:
  "isolate st \<Longrightarrow>
   Context_new eng handler st
     = (Inl (runtime_error ''V8Simple Contexts are not re-entrant''), st\<lparr>platform := True\<rparr>)"
  by (simp add: Context_new_def platform_init throws_runtime_error_simps)

lemma Context_new_null_handler:
  "\<not> isolate st \<Longrightarrow> fst (Context_new eng None st) = Inl NullDereference"
  by (simp add: Context_new_def platform_init throws_runtime_error_simps)

lemma Context_new_fresh:
  "\<not> isolate st \<Longrightarrow>
   Context_new eng (Some h) st =
     throws_runtime_error
     (case Evaluate eng ''instanceof'' ''(function(x, y) { return (x instanceof y); })''
             (st\<lparr>platform := True, isolate := True, scriptExceptionHandler := Some h,
                 trace := trace st @ [HandlerRetain h]\<rparr>) of
        (Inl e, st4) \<Rightarrow> (Inl e, st4)
      | (Inr r, st4) \<Rightarrow> (Inr (), st4\<lparr>instanceOf := r\<rparr>))"
  by (simp add: Context_new_def platform_init throws_runtime_error_simps)

lemma Context_new_success:
  assumes ok: "fst (Context_new eng handler st) = Inr ()"
  shows "isolate (snd (Context_new eng handler st)) \<and> platform (snd (Context_new eng handler st))"
proof -
  from ok have fresh: "\<not> isolate st"
    using Context_new_live [of st eng handler] by auto
  from ok fresh obtain h where h: "handler = Some h"
    using Context_new_null_handler [of st eng] by (cases handler) auto
  let ?st3 = "st\<lparr>platform := True, isolate := True, scriptExceptionHandler := Some h,
                 trace := trace st @ [HandlerRetain h]\<rparr>"
  let ?ev = "Evaluate eng ''instanceof'' ''(function(x, y) { return (x instanceof y); })'' ?st3"
  note new = Context_new_fresh [OF fresh, of eng h]
  obtain r4 st4 where ev: "?ev = (r4, st4)" by (cases ?ev)
  have "isolate (snd ?ev)" "platform (snd ?ev)"
    by (simp_all add: Evaluate_fields)
  with ev have st4: "isolate st4" "platform st4" by simp_all
  from ok new ev h obtain r where "r4 = Inr r"
    by (cases r4) (simp_all add: throws_runtime_error_def exception_specification_no_Script
        exception_specification_def split: error.splits)
  with new ev st4 h show ?thesis by (simp add: throws_runtime_error_simps)
qed

lemma js_Evaluate_bootstrap:
  assumes "isolate st"
  shows "Evaluate (js_engine c) ''instanceof'' ''(function(x, y) { return (x instanceof y); })'' st
     = (Inr (Some (Function (JS_Function Instanceof))), st)"
proof -
  have "Script_Compile (js_engine c)
          (NewFromUtf8 (js_engine c) ''(function(x, y) { return (x instanceof y); })'')
          (NewFromUtf8 (js_engine c) ''instanceof'')
        = Just (JS_Script ''(function(x, y) { return (x instanceof y); })'')"
    by (simp add: js_engine_sel js_Compile_def)
  moreover have "Script_Run (js_engine c)
          (JS_Script ''(function(x, y) { return (x instanceof y); })'')
        = Just (JS_Function Instanceof)"
    by (simp add: js_engine_sel js_Run_def)
  moreover have "Wrap (js_engine c) (TryCatch_new (js_engine c)) (JS_Function Instanceof)
        = Inr (Some (Function (JS_Function Instanceof)))"
    by (simp add: Wrap_def FromJust_def js_engine_sel js_defs exception_specification_simps)
  ultimately show ?thesis
    using assms
    by (simp add: Evaluate_def catch_ScriptException_def FromJust_def Wrap_Maybe_def Let_def
        Isolate_Scope_simps throws_runtime_error_simps exception_specification_simps)
qed

text \<open>
  Claim C3. Constructing a \<^verbatim>\<open>Context\<close> while one is live (\<^verbatim>\<open>_isolate\<close> is set, as it is
  after every successful construction) raises the \<^verbatim>\<open>std::runtime_error\<close>
  \<^verbatim>\<open>V8Simple Contexts are not re-entrant\<close> to the caller: no call is made on any handler, and
  the registered handler stays. \<^verbatim>\<open>Callback::Call\<close> of a callback without implementation
  raises the \<^verbatim>\<open>std::runtime_error\<close> \<^verbatim>\<open>Callback.Call not implemented\<close> to its caller and
  touches nothing.
\<close>

theorem lifecycle_errors:
  "(isolate st \<longrightarrow>
      Context_new eng handler st
        = (Inl (runtime_error ''V8Simple Contexts are not re-entrant''), st\<lparr>platform := True\<rparr>)
      \<and> trace (snd (Context_new eng handler st)) = trace st
      \<and> scriptExceptionHandler (snd (Context_new eng handler st)) = scriptExceptionHandler st)
   \<and> (fst (Context_new eng handler st) = Inr () \<longrightarrow>
        Context_new eng2 handler2 (snd (Context_new eng handler st))
          = (Inl (runtime_error ''V8Simple Contexts are not re-entrant''),
             snd (Context_new eng handler st)))
   \<and> Callback_Call args st = (Inl (runtime_error ''Callback.Call not implemented''), st)"
proof (intro conjI impI)
  assume live: "isolate st"
  then show a: "Context_new eng handler st
      = (Inl (runtime_error ''V8Simple Contexts are not re-entrant''), st\<lparr>platform := True\<rparr>)"
    by (rule Context_new_live)
  from a show "trace (snd (Context_new eng handler st)) = trace st" by simp
  from a show "scriptExceptionHandler (snd (Context_new eng handler st))
      = scriptExceptionHandler st" by simp
next
  assume ok: "fst (Context_new eng handler st) = Inr ()"
  let ?st = "snd (Context_new eng handler st)"
  from Context_new_success [OF ok] have "isolate ?st" "platform ?st" by simp_all
  then show "Context_new eng2 handler2 ?st
      = (Inl (runtime_error ''V8Simple Contexts are not re-entrant''), ?st)"
    using Context_new_live [of ?st eng2 handler2] by simp
next
  show "Callback_Call args st = (Inl (runtime_error ''Callback.Call not implemented''), st)"
    by (simp add: Callback_Call_def throws_runtime_error_simps)
qed

theorem lifecycle_errors_witness:
  "Context_new (js_engine js_thrown_null) (Some 0) js_start
     = (Inr (), (js_live (Some 0))\<lparr>trace := [HandlerRetain 0]\<rparr>)
   \<and> Context_new (js_engine js_thrown_null) (Some 1) ((js_live (Some 0))\<lparr>trace := [HandlerRetain 0]\<rparr>)
     = (Inl (runtime_error ''V8Simple Contexts are not re-entrant''),
        (js_live (Some 0))\<lparr>trace := [HandlerRetain 0]\<rparr>)
   \<and> Callback_Call [] (js_live (Some 0) :: js context_state)
     = (Inl (runtime_error ''Callback.Call not implemented''), js_live (Some 0))"
proof -
  let ?st0 = "js_start"
  have new: "Context_new (js_engine js_thrown_null) (Some 0) ?st0
     = (Inr (), (js_live (Some 0))\<lparr>trace := [HandlerRetain 0]\<rparr>)"
    by (simp add: Context_new_def js_Evaluate_bootstrap js_live_def js_start_def
        throws_runtime_error_simps)
  from new lifecycle_errors [of ?st0 "js_engine js_thrown_null" "Some 0"
         "js_engine js_thrown_null" "Some 1" "[]"]
  have second: "Context_new (js_engine js_thrown_null) (Some 1)
        ((js_live (Some 0))\<lparr>trace := [HandlerRetain 0]\<rparr>)
     = (Inl (runtime_error ''V8Simple Contexts are not re-entrant''),
        (js_live (Some 0))\<lparr>trace := [HandlerRetain 0]\<rparr>)"
    by simp
  from lifecycle_errors [of "js_live (Some 0)" "js_engine js_thrown_null" "Some 1"
         "js_engine js_thrown_null" "Some 1" "[]"]
  have cb: "Callback_Call [] (js_live (Some 0) :: js context_state)
     = (Inl (runtime_error ''Callback.Call not implemented''), js_live (Some 0))"
    by blast
  from new second cb show ?thesis by blast
qed

subsection \<open>Array indices\<close>

lemma Wrap_no_Script: "Wrap eng tc v \<noteq> Inl (Script e)"
  by (simp add: Wrap_def exception_specification_no_Script)

lemma Wrap_Maybe_simps:
  "Wrap_Maybe eng tc Nothing = Inl unexpected"
  "Wrap_Maybe eng tc (Just v) = Wrap eng tc v"
  by (simp_all add: Wrap_Maybe_def FromJust_def exception_specification_simps Wrap_def
      exception_specification_idem)











subsection \<open>Keys and ContainsKey\<close>

lemma NewString_id: "NewString x = x"
  by (simp add: NewString_def split: option.split)

lemma Keys_loop_names:
  assumes names: "\<forall>j<length names. Object_Get_index eng arr (word_of_int (int j)) = Just (names ! j)"
  shows "i \<le> length names \<Longrightarrow>
    Keys_loop eng tc arr (int (length names)) (int i) acc
      = Inr (acc @ map (Utf8Value eng) (drop i names))"
proof (induction "length names - i" arbitrary: i acc)
  case 0
  then have "i = length names" by simp
  then show ?case by (simp add: Keys_loop.simps)
next
  case (Suc k)
  then have lt: "i < length names" by simp
  with names have get: "Object_Get_index eng arr (word_of_int (int i)) = Just (names ! i)"
    by simp
  from Suc lt have "k = length names - Suc i" "Suc i \<le> length names" by simp_all
  from Suc.hyps(1) [OF this]
  have ih: "Keys_loop eng tc arr (int (length names)) (int (Suc i)) (acc @ [Utf8Value eng (names ! i)])
      = Inr ((acc @ [Utf8Value eng (names ! i)]) @ map (Utf8Value eng) (drop (Suc i) names))" .
  have step: "Keys_loop eng tc arr (int (length names)) (int i) acc
      = Keys_loop eng tc arr (int (length names)) (int i + 1) (acc @ [Utf8Value eng (names ! i)])"
    using lt get by (subst Keys_loop.simps) (simp add: FromJust_def NewString_id)
  have "drop i names = names ! i # drop (Suc i) names"
    using lt by (simp add: Cons_nth_drop_Suc)
  with step ih show ?case by (simp add: add.commute)
qed

text \<open>
  Claim C4, as stated, fails: \<^verbatim>\<open>ContainsKey\<close> asks the engine's \<^verbatim>\<open>Has\<close>, the \<^verbatim>\<open>in\<close>
  test, which also finds a property that is not enumerable, while \<^verbatim>\<open>Keys\<close> lists what
  \<^verbatim>\<open>GetPropertyNames\<close> enumerates. For the object made by
  \<^verbatim>\<open>Object.defineProperty({}, "hidden", {value: 1, enumerable: false})\<close>, \<^verbatim>\<open>Keys()\<close> is
  empty and \<^verbatim>\<open>ContainsKey("hidden")\<close> is true.
\<close>

theorem ContainsKey_beyond_Keys_counterexample:
  "Keys (js_engine js_thrown_null) (JS_Object [(''hidden'', False, JS_Int32 1)]) (js_live (Some 0))
     = (Inr [], js_live (Some 0))
   \<and> ContainsKey (js_engine js_thrown_null) (JS_Object [(''hidden'', False, JS_Int32 1)])
        ''hidden'' (js_live (Some 0))
     = (Inr True, js_live (Some 0))"
  by (simp add: Keys_def ContainsKey_def FromJust_def Let_def catch_ScriptException_cases(3)
      Isolate_Scope_simps js_state_sel
      Keys_loop.simps js_engine_sel js_GetPropertyNames_def js_Length_def js_Has_def)

text \<open>
  Claim C4, amended. With a live context, \<^verbatim>\<open>Object::Keys\<close> returns the text of each name
  in the array that the engine's \<^verbatim>\<open>GetPropertyNames\<close> reports, one entry for each element
  and in its order, and the empty sequence, with the exception handled, when the
  enumeration fails. \<^verbatim>\<open>Object::ContainsKey\<close> returns the answer of the engine's \<^verbatim>\<open>Has\<close>
  for the key, and false, with the exception handled, when \<^verbatim>\<open>Has\<close> fails.
\<close>

theorem Keys_and_ContainsKey_follow_engine:
  "(isolate st \<and> GetPropertyNames eng ob = Just arr
      \<and> sint (Array_Length eng arr) = int (length names)
      \<and> (\<forall>j<length names. Object_Get_index eng arr (word_of_int (int j)) = Just (names ! j)) \<longrightarrow>
      Keys eng ob st = (Inr (map (Utf8Value eng) names), st))
   \<and> (isolate st \<and> GetPropertyNames eng ob = Nothing \<longrightarrow>
        Keys eng ob st = (Inr [], HandleScriptException (Throw eng (TryCatch_new eng)) st))
   \<and> (isolate st \<and> Has eng ob (NewFromUtf8 eng key) = Just b \<longrightarrow>
        ContainsKey eng ob key st = (Inr b, st))
   \<and> (isolate st \<and> Has eng ob (NewFromUtf8 eng key) = Nothing \<longrightarrow>
        ContainsKey eng ob key st
          = (Inr False, HandleScriptException (Throw eng (TryCatch_new eng)) st))"
proof (intro conjI impI)
  assume a: "isolate st \<and> GetPropertyNames eng ob = Just arr
      \<and> sint (Array_Length eng arr) = int (length names)
      \<and> (\<forall>j<length names. Object_Get_index eng arr (word_of_int (int j)) = Just (names ! j))"
  then have names: "\<forall>j<length names. Object_Get_index eng arr (word_of_int (int j)) = Just (names ! j)"
    by simp
  from Keys_loop_names [OF names, of 0 "TryCatch_new eng" "[]"]
  have "Keys_loop eng (TryCatch_new eng) arr (int (length names)) 0 []
      = Inr (map (Utf8Value eng) names)" by simp
  with a show "Keys eng ob st = (Inr (map (Utf8Value eng) names), st)"
    by (simp add: Keys_def FromJust_def Let_def catch_ScriptException_cases(3) Isolate_Scope_simps)
next
  assume "isolate st \<and> GetPropertyNames eng ob = Nothing"
  then show "Keys eng ob st = (Inr [], HandleScriptException (Throw eng (TryCatch_new eng)) st)"
    by (simp add: Keys_def FromJust_def Let_def catch_ScriptException_cases(1) Isolate_Scope_simps)
next
  assume "isolate st \<and> Has eng ob (NewFromUtf8 eng key) = Just b"
  then show "ContainsKey eng ob key st = (Inr b, st)"
    by (simp add: ContainsKey_def FromJust_def catch_ScriptException_cases(3) Isolate_Scope_simps)
next
  assume "isolate st \<and> Has eng ob (NewFromUtf8 eng key) = Nothing"
  then show "ContainsKey eng ob key st
          = (Inr False, HandleScriptException (Throw eng (TryCatch_new eng)) st)"
    by (simp add: ContainsKey_def FromJust_def catch_ScriptException_cases(1) Isolate_Scope_simps)
qed

theorem Keys_and_ContainsKey_follow_engine_witness:
  "Keys (js_engine js_thrown_null)
       (JS_Object [(''a'', True, JS_Int32 1), (''hidden'', False, JS_Null), (''b'', True, JS_Null)])
       (js_live (Some 0))
     = (Inr [Some ''a'', Some ''b''], js_live (Some 0))
   \<and> ContainsKey (js_engine js_thrown_null)
       (JS_Object [(''a'', True, JS_Int32 1), (''hidden'', False, JS_Null), (''b'', True, JS_Null)])
       ''b'' (js_live (Some 0))
     = (Inr True, js_live (Some 0))
   \<and> ContainsKey (js_engine js_thrown_null)
       (JS_Object [(''a'', True, JS_Int32 1), (''hidden'', False, JS_Null), (''b'', True, JS_Null)])
       ''z'' (js_live (Some 0))
     = (Inr False, js_live (Some 0))"
proof -
  let ?E = "js_engine js_thrown_null"
  let ?ob = "JS_Object [(''a'', True, JS_Int32 1), (''hidden'', False, JS_Null), (''b'', True, JS_Null)]"
  let ?names = "[JS_String ''a'', JS_String ''b'']"
  let ?st = "js_live (Some 0) :: js context_state"
  have live: "isolate ?st" by (simp add: js_state_sel)
  have p: "GetPropertyNames ?E ?ob = Just (JS_Array ?names None)"
    by (simp add: js_engine_sel js_GetPropertyNames_def)
  have l: "sint (Array_Length ?E (JS_Array ?names None)) = int (length ?names)"
    by (simp add: js_engine_sel js_Length_def)
  have g: "\<forall>j<length ?names.
      Object_Get_index ?E (JS_Array ?names None) (word_of_int (int j)) = Just (?names ! j)"
  proof (intro allI impI)
    fix j assume "j < length ?names"
    then have "j = 0 \<or> j = 1" by auto
    then show "Object_Get_index ?E (JS_Array ?names None) (word_of_int (int j)) = Just (?names ! j)"
      by (auto simp: js_engine_sel js_Get_index_def)
  qed
  note t1 = Keys_and_ContainsKey_follow_engine [of ?st ?E ?ob "JS_Array ?names None" ?names "''b''" True]
  note t2 = Keys_and_ContainsKey_follow_engine [of ?st ?E ?ob "JS_Array ?names None" ?names "''z''" False]
  from t1 [THEN conjunct1, rule_format, OF conjI, OF live conjI, OF p conjI, OF l g]
  have k: "Keys ?E ?ob ?st = (Inr [Some ''a'', Some ''b''], ?st)"
    by (simp add: js_engine_sel js_Utf8Value_def js_ToString_def)
  have "Has ?E ?ob (NewFromUtf8 ?E ''b'') = Just True"
    by (simp add: js_engine_sel js_Has_def)
  from t1 [THEN conjunct2, THEN conjunct2, THEN conjunct1, rule_format, OF conjI, OF live this]
  have c1: "ContainsKey ?E ?ob ''b'' ?st = (Inr True, ?st)" .
  have "Has ?E ?ob (NewFromUtf8 ?E ''z'') = Just False"
    by (simp add: js_engine_sel js_Has_def)
  from t2 [THEN conjunct2, THEN conjunct2, THEN conjunct1, rule_format, OF conjI, OF live this]
  have c2: "ContainsKey ?E ?ob ''z'' ?st = (Inr False, ?st)" .
  from k c1 c2 show ?thesis by (intro conjI)
qed

subsection \<open>Script failures at the public boundary\<close>

text \<open>
  No facade operation lets a \<^verbatim>\<open>ScriptException\<close> out: each is a handler around its
  body, or has an exception specification that a \<^verbatim>\<open>ScriptException\<close> does not pass, or
  both.
\<close>

lemma catch_ScriptException_no_Script:
  "fst (catch_ScriptException d r) \<noteq> Inl (Script e)"
  by (simp add: catch_ScriptException_def split: prod.split sum.split error.split)

lemma throws_runtime_error_no_Script:
  "fst (throws_runtime_error r) \<noteq> Inl (Script e)"
  by (simp add: throws_runtime_error_def exception_specification_no_Script)

lemma facade_no_ScriptException:
  "fst (Evaluate eng fileName code st) \<noteq> Inl (Script e)"
  "fst (Object_Get_op eng ob key st) \<noteq> Inl (Script e)"
  "fst (Object_Set_op eng ob key v st) \<noteq> Inl (Script e)"
  "fst (Keys eng ob st) \<noteq> Inl (Script e)"
  "fst (ContainsKey eng ob key st) \<noteq> Inl (Script e)"
  "fst (Object_Equals eng ob other st) \<noteq> Inl (Script e)"
  "fst (CallMethod eng ob key args st) \<noteq> Inl (Script e)"
  "fst (InstanceOf eng ob type st) \<noteq> Inl (Script e)"
  "fst (Array_Get eng ob i st) \<noteq> Inl (Script e)"
  "fst (Array_Set eng ob i v st) \<noteq> Inl (Script e)"
  "fst (Array_Equals eng ob other st) \<noteq> Inl (Script e)"
  "fst (Function_Call_op eng ob args st) \<noteq> Inl (Script e)"
  "fst (Function_Construct eng ob args st) \<noteq> Inl (Script e)"
  "fst (Function_Equals eng ob other st) \<noteq> Inl (Script e)"
  by (simp_all only: Evaluate_def Object_Get_op_def Object_Set_op_def Keys_def ContainsKey_def
      Object_Equals_def CallMethod_def InstanceOf_def Array_Get_def Array_Set_def
      Array_Equals_def Function_Call_op_def Function_Construct_def Function_Equals_def
      catch_ScriptException_no_Script throws_runtime_error_no_Script not_False_eq_True)

text \<open>
  A failure that is raised in the body of the operation itself is caught there: the
  exception is handed to \<^verbatim>\<open>HandleScriptException\<close> and the failure result is returned.
  So it is for a script that does not compile. A script that compiles and fails when
  it runs is another matter: \<^verbatim>\<open>Evaluate\<close> hands the empty result of \<^verbatim>\<open>Run\<close> to
  \<^verbatim>\<open>Wrap(tryCatch, MaybeLocal)\<close>, the \<^verbatim>\<open>ScriptException\<close> is raised inside \<^verbatim>\<open>Wrap\<close>, and
  the exception specification of \<^verbatim>\<open>Wrap\<close> ends the program before the handler of
  \<^verbatim>\<open>Evaluate\<close> is reached. \<^verbatim>\<open>Function::Call\<close> does the same with the result of the call.
\<close>

lemma Evaluate_compile_failure:
  assumes "isolate st"
    and "Script_Compile eng (NewFromUtf8 eng code) (NewFromUtf8 eng fileName) = Nothing"
  shows "Evaluate eng fileName code st
    = (Inr None, HandleScriptException (Throw eng (TryCatch_new eng)) st)"
  using assms
  by (simp add: Evaluate_def Isolate_Scope_simps Let_def FromJust_def
      catch_ScriptException_cases(1) throws_runtime_error_simps)

lemma Evaluate_run_failure:
  assumes "isolate st"
    and "Script_Compile eng (NewFromUtf8 eng code) (NewFromUtf8 eng fileName) = Just script"
    and "Script_Run eng script = Nothing"
  shows "Evaluate eng fileName code st = (Inl unexpected, st)"
  using assms
  by (simp add: Evaluate_def Isolate_Scope_simps Let_def FromJust_def Wrap_Maybe_simps
      catch_ScriptException_cases(2) throws_runtime_error_simps)

lemma UnwrapVector_two_handles:
  "UnwrapVector eng tc [Some (Object ob), Some (Function f)] st = (Inr [ob, f], st)"
  by (simp add: UnwrapVector_def Unwrap_def)

lemma Function_Call_op_failed_call:
  assumes "isolate st"
    and "UnwrapVector eng (TryCatch_new eng) args st = (Inr unwrappedArgs, st1)"
    and "Function_Call eng f (Global eng) unwrappedArgs = Nothing"
  shows "Function_Call_op eng f args st = (Inl unexpected, st1)"
  using assms
  by (simp add: Function_Call_op_def Isolate_Scope_simps Let_def Wrap_Maybe_simps
      catch_ScriptException_cases(2) throws_runtime_error_simps)

text \<open>
  \<^verbatim>\<open>Object::InstanceOf\<close> has no handler and no test of the pointer it gets from
  \<^verbatim>\<open>Function::Call\<close>: a failed call of the helper ends the program inside
  \<^verbatim>\<open>Function::Call\<close>, and a null pointer returned by it would be read through.
  \<^verbatim>\<open>Object::CallMethod\<close> hands the empty handle of the three-argument \<^verbatim>\<open>Call\<close> to
  \<^verbatim>\<open>Wrap\<close>, before any exception is raised.
\<close>

lemma InstanceOf_failed_call:
  assumes "isolate st" and "instanceOf st = Some (Function helper)"
    and "Function_Call eng helper (Global eng) [ob, type] = Nothing"
  shows "InstanceOf eng ob type st = (Inl unexpected, st)"
proof -
  have "Function_Call_op eng helper [Some (Object ob), Some (Function type)] st
      = (Inl unexpected, st)"
    using assms(1) UnwrapVector_two_handles assms(3) by (rule Function_Call_op_failed_call)
  with assms(2) show ?thesis by (simp add: InstanceOf_def throws_runtime_error_simps)
qed

lemma InstanceOf_null_result:
  assumes "instanceOf st = Some (Function helper)"
    and "Function_Call_op eng helper [Some (Object ob), Some (Function type)] st = (Inr None, st')"
  shows "InstanceOf eng ob type st = (Inl NullDereference, st')"
  using assms by (simp add: InstanceOf_def throws_runtime_error_simps)

lemma CallMethod_failed_call:
  assumes "isolate st"
    and "Object_Get eng ob (NewFromUtf8 eng name) = Just f"
    and "UnwrapVector eng (TryCatch_new eng) args st = (Inr unwrappedArgs, st1)"
    and "Function_Call_recv eng f ob unwrappedArgs = None"
  shows "CallMethod eng ob name args st = (Inl NullDereference, st1)"
  using assms
  by (simp add: CallMethod_def Isolate_Scope_simps FromJust_def catch_ScriptException_cases(2)
      throws_runtime_error_simps)

text \<open>
  Claim C1 holds of a failure raised in the body of an operation that is a handler around
  that body, and fails for \<^verbatim>\<open>Object::InstanceOf\<close> and for a script that fails when
  \<^verbatim>\<open>Evaluate\<close> runs it. For an object and an arrow function as the type, the helper's
  \<^verbatim>\<open>x instanceof y\<close> raises a \<^verbatim>\<open>TypeError\<close>; for the script \<^verbatim>\<open>throw null\<close>, \<^verbatim>\<open>Run\<close> gives
  no result. In both cases the \<^verbatim>\<open>ScriptException\<close> is raised inside \<^verbatim>\<open>Wrap\<close>, which may
  raise a \<^verbatim>\<open>std::runtime_error\<close> only: the program ends, the registered handler is not
  called, and the operation returns neither false nor the null pointer.
\<close>

theorem script_failure_leaves_no_result:
  "InstanceOf (js_engine js_TypeError) (JS_Object []) (JS_Function Arrow) (js_live (Some 0))
     = (Inl unexpected, js_live (Some 0))
   \<and> Evaluate (js_engine js_thrown_null) ''t'' ''throw null'' (js_live (Some 0))
     = (Inl unexpected, js_live (Some 0))"
proof -
  have live: "isolate (js_live (Some 0) :: js context_state)"
    by (simp add: js_state_sel)
  have "instanceOf (js_live (Some 0) :: js context_state) = Some (Function (JS_Function Instanceof))"
    by (simp add: js_state_sel)
  moreover have "Function_Call (js_engine js_TypeError) (JS_Function Instanceof)
      (Global (js_engine js_TypeError)) [JS_Object [], JS_Function Arrow] = Nothing"
    by (simp add: js_engine_sel js_Call_def)
  ultimately have i: "InstanceOf (js_engine js_TypeError) (JS_Object []) (JS_Function Arrow)
      (js_live (Some 0)) = (Inl unexpected, js_live (Some 0))"
    by (rule InstanceOf_failed_call [OF live])
  have c: "Script_Compile (js_engine js_thrown_null)
      (NewFromUtf8 (js_engine js_thrown_null) ''throw null'')
      (NewFromUtf8 (js_engine js_thrown_null) ''t'') = Just (JS_Script ''throw null'')"
    by (simp add: js_engine_sel js_Compile_def)
  have r: "Script_Run (js_engine js_thrown_null) (JS_Script ''throw null'') = Nothing"
    by (simp add: js_engine_sel js_Run_def)
  from live c r have "Evaluate (js_engine js_thrown_null) ''t'' ''throw null'' (js_live (Some 0))
     = (Inl unexpected, js_live (Some 0))"
    by (rule Evaluate_run_failure)
  with i show ?thesis by (intro conjI)
qed

subsection \<open>No registered handler\<close>



























end
